theory Spec2Isabelle
  imports Main "HOL-Library.Word"
begin

section \<open>Webhook notification pipeline of the WhatsApp REST gateway\<close>

text \<open>
  The development embeds \<^verbatim>\<open>infrastructure/whatsapp/webhook.go\<close> (payload
  building, classification, delivery with retries) and the \<^verbatim>\<open>POST /call-ended\<close>
  handler of the REST command (the duplicate-suppression cache). Functions of other
  packages and of files that are not part of the two sources (the HTTP client, the
  protobuf getters, the WhatsApp client, \<^verbatim>\<open>ExtractMedia\<close>, \<^verbatim>\<open>GetGroupName\<close>,
  \<^verbatim>\<open>buildEventMessage\<close>, ...) are fields of the record \<open>env\<close>: the theorems hold
  for every behaviour of these collaborators.
\<close>

subsection \<open>Values\<close>

text \<open>An opaque protobuf sub-message (a media reference, a list, a location, ...).\<close>

type_synonym proto = string

text \<open>The struct returned by \<^verbatim>\<open>buildEventReaction\<close>; only \<^verbatim>\<open>Message\<close> is read.\<close>

record evtReaction =
  reaction_Message :: string

text \<open>The values stored in a \<^verbatim>\<open>map[string]interface{}\<close>.\<close>

datatype jvalue =
    JString string
  | JBool bool
  | JObject "string \<Rightarrow> jvalue option"
  | JArray "jvalue list"
  | JProto proto
  | JReaction evtReaction

type_synonym payload = "string \<rightharpoonup> jvalue"

text \<open>\<^verbatim>\<open>pkgError.WebhookError(msg)\<close>.\<close>

datatype error = WebhookError string

subsection \<open>Inbound events\<close>

record extendedTextMessage =
  ext_Text :: string
  ext_Title :: string
  ext_Description :: string

record audioMessage =
  audio_PTT :: bool
  audio_ref :: proto

record contactMessage =
  contact_DisplayName :: string
  contact_Vcard :: string

record pollUpdateMessage =
  pollCreationMessageKey_ID :: string

text \<open>
  \<^verbatim>\<open>waE2E.Message\<close>: one optional field per variant (a nil pointer is \<open>None\<close>,
  an unset string is empty, as the generated getters return them). A nil
  \<^verbatim>\<open>evt.Message\<close> behaves as the record with every field unset. Only the fields the
  two source files read are kept.
\<close>

record waMessage =
  conversation :: string
  extendedText :: "extendedTextMessage option"
  audioMsg :: "audioMessage option"
  imageMsg :: "proto option"
  videoMsg :: "proto option"
  documentMsg :: "proto option"
  stickerMsg :: "proto option"
  contactMsg :: "contactMessage option"
  locationMsg :: "proto option"
  liveLocationMsg :: "proto option"
  listMsg :: "proto option"
  orderMsg :: "proto option"
  paymentInviteMsg :: "proto option"
  pollCreationV3 :: "proto option"
  pollCreationV4 :: "proto option"
  pollCreationV5 :: "proto option"
  pollUpdateMsg :: "pollUpdateMessage option"
  reactionMsg :: "proto option"

text \<open>
  \<^verbatim>\<open>types.MessageInfo\<close>, through the accessors the code calls:
  \<^verbatim>\<open>SourceString()\<close>, \<^verbatim>\<open>Chat.String()\<close>, \<^verbatim>\<open>PushName\<close>, \<^verbatim>\<open>Timestamp\<close>
  (seconds since the epoch) and \<^verbatim>\<open>Type\<close>.
\<close>

record messageInfo =
  info_SourceString :: string
  info_ChatString :: string
  info_PushName :: string
  info_Timestamp :: int
  info_Type :: string

record event =
  Info :: messageInfo
  Message :: waMessage
  IsViewOnce :: bool

text \<open>The struct returned by \<^verbatim>\<open>buildEventMessage\<close>.\<close>

record evtMessage =
  msg_ID :: string
  msg_Text :: string
  msg_RepliedId :: string
  msg_QuotedMessage :: string

text \<open>What \<^verbatim>\<open>ExtractMedia\<close> is given: one of the five downloadable sub-messages.\<close>

datatype downloadable =
    DAudio audioMessage
  | DDocument proto
  | DImage proto
  | DSticker proto
  | DVideo proto

subsection \<open>HTTP requests and the trace of a delivery\<close>

record http_request =
  req_method :: string
  req_url :: string
  req_body :: string
  req_headers :: "(string \<times> string) list"

text \<open>\<^verbatim>\<open>Header.Set\<close>: the value replaces any earlier value of the key.\<close>

definition header_Set :: "string \<Rightarrow> string \<Rightarrow> http_request \<Rightarrow> http_request" where
  "header_Set k v req =
     req\<lparr>req_headers := (k, v) # filter (\<lambda>kv. fst kv \<noteq> k) (req_headers req)\<rparr>"

text \<open>
  What a delivery does to the outside world, in order: a request handed to
  \<^verbatim>\<open>client.Do\<close> (named by its URL) or a call of \<^verbatim>\<open>time.Sleep\<close> with a
  \<^verbatim>\<open>time.Duration\<close> (a 64-bit count of nanoseconds).
\<close>

datatype io_event = HttpDo string | Sleep "64 word"

subsection \<open>Configuration and collaborators\<close>

text \<open>A parsed \<^verbatim>\<open>types.JID\<close>; the code only passes it on.\<close>

type_synonym jid = string

text \<open>
  A collaborator that can fail returns \<open>Inl msg\<close> (the text of its Go error) or
  \<open>Inr v\<close>. \<open>client_Do\<close> answers a request given everything the process did before
  (\<open>None\<close> is a nil error), so a peer may fail on some attempts and accept others.
  \<open>waCli_RejectCall\<close> is given the earlier invocations in the same way.
  \<open>http_NewRequest_err method url\<close> is the error of \<^verbatim>\<open>http.NewRequest\<close>, if any;
  \<open>format_Message\<close> is \<^verbatim>\<open>fmt.Sprintf("%+v", evt.Message)\<close>.
  \<open>waCli_StoreID\<close> is \<open>None\<close> when \<^verbatim>\<open>GetWaCli()\<close> is nil or has no store identity.
\<close>

record env =
  WhatsappWebhook :: "string list"
  WhatsappWebhookSecret :: string
  PathMedia :: string
  AppPort :: string
  json_Marshal :: "payload \<Rightarrow> string + string"
  http_NewRequest_err :: "string \<Rightarrow> string \<Rightarrow> string option"
  getMessageDigestOrSignature :: "string \<Rightarrow> string \<Rightarrow> string + string"
  client_Do :: "io_event list \<Rightarrow> http_request \<Rightarrow> string option"
  buildEventMessage :: "event \<Rightarrow> evtMessage"
  buildEventReaction :: "event \<Rightarrow> evtReaction"
  buildForwarded :: "event \<Rightarrow> bool"
  format_RFC3339 :: "int \<Rightarrow> string"
  format_Message :: "waMessage \<Rightarrow> string"
  types_ParseJID :: "string \<Rightarrow> string + jid"
  whatsapp_ParseJID :: "string \<Rightarrow> string + jid"
  GetGroupName :: "jid \<Rightarrow> string + string"
  waCli_present :: bool
  waCli_StoreID :: "string option"
  extractPhoneNumber :: "string \<Rightarrow> string"
  ExtractMedia :: "string \<Rightarrow> downloadable \<Rightarrow> string + string"
  waCli_RejectCall :: "(jid \<times> string) list \<Rightarrow> jid \<Rightarrow> string \<Rightarrow> string option"

subsection \<open>Formatting\<close>

text \<open>The verb \<^verbatim>\<open>%d\<close> of \<^verbatim>\<open>fmt.Sprintf\<close> on a non-negative integer.\<close>

definition digit_char :: "nat \<Rightarrow> char" where
  "digit_char d = char_of (48 + d)"

function itoa :: "nat \<Rightarrow> string" where
  "itoa n = (if n < 10 then [digit_char n] else itoa (n div 10) @ [digit_char (n mod 10)])"
  by pat_completeness auto
termination
  by (relation "measure id") auto

text \<open>The verb \<^verbatim>\<open>%v\<close> on an \<^verbatim>\<open>error\<close>: its message, or \<^verbatim>\<open><nil>\<close>.\<close>

definition fmt_err :: "string option \<Rightarrow> string" where
  "fmt_err e = (case e of None \<Rightarrow> ''<nil>'' | Some m \<Rightarrow> m)"

subsection \<open>\<^verbatim>\<open>SubmitWebhook\<close>\<close>

definition maxAttempts :: nat where
  "maxAttempts = 5"

text \<open>\<^verbatim>\<open>time.Second\<close>, in nanoseconds.\<close>

definition Second :: "64 word" where
  "Second = 1000000000"

text \<open>
  The retry loop (webhook.go, lines 305-315). \<open>err\<close> is the variable \<^verbatim>\<open>err\<close> of the
  function, \<open>tr\<close> the trace so far. A failed attempt is followed by the sleep and the
  doubling whether or not another attempt follows.
\<close>

function submit_loop ::
  "env \<Rightarrow> http_request \<Rightarrow> nat \<Rightarrow> 64 word \<Rightarrow> string option \<Rightarrow> io_event list
     \<Rightarrow> error option \<times> io_event list" where
  "submit_loop E req attempt sleepDuration err tr =
     (if attempt < maxAttempts then
        (case client_Do E tr req of
           None \<Rightarrow> (None, tr @ [HttpDo (req_url req)])
         | Some e \<Rightarrow>
             submit_loop E req (attempt + 1) (sleepDuration * 2) (Some e)
               (tr @ [HttpDo (req_url req), Sleep sleepDuration]))
      else
        (Some (WebhookError
           (''Failed after '' @ itoa attempt @ '' attempts: '' @ fmt_err err)), tr))"
  by pat_completeness auto
termination
  by (relation "measure (\<lambda>(E, req, attempt, d, err, tr). maxAttempts - attempt)") auto

declare submit_loop.simps [simp del]
declare itoa.simps [simp del]

text \<open>\<^verbatim>\<open>http.NewRequest(method, url, body)\<close>.\<close>

definition http_NewRequest :: "env \<Rightarrow> string \<Rightarrow> string \<Rightarrow> string \<Rightarrow> string + http_request" where
  "http_NewRequest E method url body =
     (case http_NewRequest_err E method url of
        Some e \<Rightarrow> Inl e
      | None \<Rightarrow> Inr \<lparr>req_method = method, req_url = url, req_body = body, req_headers = []\<rparr>)"

definition SubmitWebhook ::
  "env \<Rightarrow> payload \<Rightarrow> string \<Rightarrow> io_event list \<Rightarrow> error option \<times> io_event list" where
  "SubmitWebhook E pl url tr =
     (case json_Marshal E pl of
        Inl e \<Rightarrow> (Some (WebhookError (''Failed to marshal body: '' @ e)), tr)
      | Inr postBody \<Rightarrow>
     (case http_NewRequest E ''POST'' url postBody of
        Inl e \<Rightarrow> (Some (WebhookError (''Error when creating HTTP request: '' @ e)), tr)
      | Inr req \<Rightarrow>
     (case getMessageDigestOrSignature E postBody (WhatsappWebhookSecret E) of
        Inl e \<Rightarrow> (Some (WebhookError (''Error when creating signature: '' @ e)), tr)
      | Inr signature \<Rightarrow>
          submit_loop E
            (header_Set ''X-Hub-Signature-256'' (''sha256='' @ signature)
               (header_Set ''Content-Type'' ''application/json'' req))
            0 (1 * Second) None tr)))"

text \<open>
  The request \<^verbatim>\<open>SubmitWebhook\<close> hands to the client when serialising, building the
  request and signing all succeed; \<open>None\<close> when one of them fails and no request is
  ever sent.
\<close>

definition prepared :: "env \<Rightarrow> payload \<Rightarrow> string \<Rightarrow> http_request option" where
  "prepared E pl url =
     (case json_Marshal E pl of
        Inl e \<Rightarrow> None
      | Inr postBody \<Rightarrow>
     (case http_NewRequest E ''POST'' url postBody of
        Inl e \<Rightarrow> None
      | Inr req \<Rightarrow>
     (case getMessageDigestOrSignature E postBody (WhatsappWebhookSecret E) of
        Inl e \<Rightarrow> None
      | Inr signature \<Rightarrow>
          Some (header_Set ''X-Hub-Signature-256'' (''sha256='' @ signature)
                  (header_Set ''Content-Type'' ''application/json'' req)))))"

text \<open>Reading a trace.\<close>

fun is_attempt :: "io_event \<Rightarrow> bool" where
  "is_attempt (HttpDo u) = True"
| "is_attempt (Sleep d) = False"

definition attempts_of :: "io_event list \<Rightarrow> string list" where
  "attempts_of tr = concat (map (\<lambda>e. case e of HttpDo u \<Rightarrow> [u] | Sleep d \<Rightarrow> []) tr)"

definition sleeps_of :: "io_event list \<Rightarrow> 64 word list" where
  "sleeps_of tr = concat (map (\<lambda>e. case e of HttpDo u \<Rightarrow> [] | Sleep d \<Rightarrow> [d]) tr)"

text \<open>The delays between attempts: the sleeps that are followed by another attempt.\<close>

definition inter_attempt_delays :: "io_event list \<Rightarrow> 64 word list" where
  "inter_attempt_delays tr = sleeps_of (rev (dropWhile (\<lambda>e. \<not> is_attempt e) (rev tr)))"

text \<open>The trace of \<open>k\<close> failed attempts in a row, the first sleep being \<open>d\<close>.\<close>

fun backoff :: "string \<Rightarrow> nat \<Rightarrow> 64 word \<Rightarrow> io_event list" where
  "backoff u 0 d = []"
| "backoff u (Suc k) d = HttpDo u # Sleep d # backoff u k (d * 2)"

text \<open>\<^verbatim>\<open>forwardToWebhook\<close>, lines 27-34: the loop over the configured URLs.\<close>

fun forward_loop ::
  "env \<Rightarrow> payload \<Rightarrow> string list \<Rightarrow> io_event list \<Rightarrow> error option \<times> io_event list" where
  "forward_loop E pl [] tr = (None, tr)"
| "forward_loop E pl (url # urls) tr =
     (case SubmitWebhook E pl url tr of
        (Some err, tr') \<Rightarrow> (Some err, tr')
      | (None, tr') \<Rightarrow> forward_loop E pl urls tr')"

subsection \<open>Strings and the two regular expressions\<close>

text \<open>\<^verbatim>\<open>strings.HasPrefix\<close> and \<^verbatim>\<open>strings.Contains\<close>, on bytes as in Go.\<close>

fun HasPrefix :: "string \<Rightarrow> string \<Rightarrow> bool" where
  "HasPrefix s [] = True"
| "HasPrefix [] (p # ps) = False"
| "HasPrefix (c # cs) (p # ps) = (c = p \<and> HasPrefix cs ps)"

fun Contains :: "string \<Rightarrow> string \<Rightarrow> bool" where
  "Contains [] sub = HasPrefix [] sub"
| "Contains (c # cs) sub = (HasPrefix (c # cs) sub \<or> Contains cs sub)"


text \<open>
  The class \<^verbatim>\<open>\s\<close> of Go's regular expressions: tab, line feed, form feed,
  carriage return and space.
\<close>

definition is_space :: "char \<Rightarrow> bool" where
  "is_space c = (c = CHR 0x09 \<or> c = CHR 0x0A \<or> c = CHR 0x0C \<or> c = CHR 0x0D \<or> c = CHR '' '')"

text \<open>
  \<^verbatim>\<open>regexp.MustCompile(`https?://[^\s]+`).MatchString\<close>: somewhere in the string,
  \<^verbatim>\<open>http://\<close> or \<^verbatim>\<open>https://\<close> followed by at least one character that is not
  white space. (A byte above 127 belongs to a rune that is not white space.)
\<close>

definition starts_nonspace :: "string \<Rightarrow> bool" where
  "starts_nonspace s = (case s of [] \<Rightarrow> False | c # cs \<Rightarrow> \<not> is_space c)"

definition url_here :: "string \<Rightarrow> bool" where
  "url_here s =
     ((HasPrefix s ''http://'' \<and> starts_nonspace (drop 7 s)) \<or>
      (HasPrefix s ''https://'' \<and> starts_nonspace (drop 8 s)))"

fun urlRegex_MatchString :: "string \<Rightarrow> bool" where
  "urlRegex_MatchString [] = False"
| "urlRegex_MatchString (c # cs) = (url_here (c # cs) \<or> urlRegex_MatchString cs)"

text \<open>
  The expression \<^verbatim>\<open>contacts:{displayName:"(.*?)".*?vcard:"(.*?)"}\<close>, matched
  by backtracking with the leftmost-first preference of Go: a literal, and a lazy
  \<^verbatim>\<open>.*?\<close> (any characters but a line feed, as few as the rest of the expression
  allows) that returns what it consumed together with the result of the rest.
\<close>

definition lit :: "string \<Rightarrow> (string \<Rightarrow> 'a option) \<Rightarrow> string \<Rightarrow> 'a option" where
  "lit p cont s = (if HasPrefix s p then cont (drop (length p) s) else None)"

fun lazy_dots :: "(string \<Rightarrow> 'a option) \<Rightarrow> string \<Rightarrow> string \<Rightarrow> (string \<times> 'a) option" where
  "lazy_dots cont acc [] =
     (case cont [] of Some r \<Rightarrow> Some (rev acc, r) | None \<Rightarrow> None)"
| "lazy_dots cont acc (c # cs) =
     (case cont (c # cs) of
        Some r \<Rightarrow> Some (rev acc, r)
      | None \<Rightarrow> if c = CHR 0x0A then None else lazy_dots cont (c # acc) cs)"

text \<open>A match at the start of \<open>s\<close>: the two groups and what follows the match.\<close>

definition contact_match_here :: "string \<Rightarrow> (string \<times> string \<times> string) option" where
  "contact_match_here s =
     (case lit (''contacts:{displayName:'' @ [CHR 0x22])
             (lazy_dots (lit [CHR 0x22]
                (lazy_dots (lit (''vcard:'' @ [CHR 0x22])
                   (lazy_dots (lit [CHR 0x22, CHR ''}''] Some) []))
                 [])) [])
             s of
        None \<Rightarrow> None
      | Some (g1, gap, g2, rest) \<Rightarrow> Some (g1, g2, rest))"

text \<open>
  \<^verbatim>\<open>FindAllStringSubmatch(raw, -1)\<close>: the successive non-overlapping matches, each
  given by its two groups. \<open>skip\<close> counts the characters still covered by the match found
  last.
\<close>

fun contact_matches :: "nat \<Rightarrow> string \<Rightarrow> (string \<times> string) list" where
  "contact_matches skip [] = []"
| "contact_matches skip (c # cs) =
     (if 0 < skip then contact_matches (skip - 1) cs
      else
        (case contact_match_here (c # cs) of
           None \<Rightarrow> contact_matches 0 cs
         | Some (g1, g2, rest) \<Rightarrow>
             (g1, g2) # contact_matches (length cs - length rest) cs))"

text \<open>\<^verbatim>\<open>strings.ReplaceAll(s, `\n`, "\n")\<close>: backslash and \<^verbatim>\<open>n\<close> become a line feed.\<close>

fun unescape_newlines :: "string \<Rightarrow> string" where
  "unescape_newlines (a # b # cs) =
     (if a = CHR 0x5C \<and> b = CHR ''n'' then CHR 0x0A # unescape_newlines cs
      else a # unescape_newlines (b # cs))"
| "unescape_newlines cs = cs"

subsection \<open>\<^verbatim>\<open>determineMessageType\<close>\<close>

text \<open>The condition of lines 137 and 242: a "media" envelope whose dump names a contact array.\<close>

definition multi_contact :: "env \<Rightarrow> event \<Rightarrow> bool" where
  "multi_contact E evt =
     (info_Type (Info evt) = ''media'' \<and>
      Contains (format_Message E (Message evt)) ''contactsArrayMessage'')"

definition determineMessageType :: "env \<Rightarrow> event \<Rightarrow> string \<Rightarrow> string" where
  "determineMessageType E evt text =
     (let m = Message evt in
      if audioMsg m \<noteq> None then
        (if audio_PTT (the (audioMsg m)) then ''voice_message'' else ''audio_message'')
      else if imageMsg m \<noteq> None then ''image_message''
      else if videoMsg m \<noteq> None then ''video_message''
      else if documentMsg m \<noteq> None then ''document_message''
      else if stickerMsg m \<noteq> None then ''sticker_message''
      else if contactMsg m \<noteq> None then ''contact_message''
      else if multi_contact E evt then ''contact_message''
      else if locationMsg m \<noteq> None then ''location_message''
      else if liveLocationMsg m \<noteq> None then ''live_location_message''
      else if listMsg m \<noteq> None then ''list_message''
      else if orderMsg m \<noteq> None then ''order''
      else if paymentInviteMsg m \<noteq> None then ''payment''
      else if pollCreationV3 m \<noteq> None \<or> pollCreationV4 m \<noteq> None \<or> pollCreationV5 m \<noteq> None
        then ''poll_message''
      else if pollUpdateMsg m \<noteq> None then ''poll_message''
      else if reactionMsg m \<noteq> None then ''reaction_message''
      else if conversation m \<noteq> '''' \<or> extendedText m \<noteq> None then
        (if urlRegex_MatchString text then ''link_message'' else ''text_message'')
      else ''unknown'')"

subsection \<open>\<^verbatim>\<open>createPayload\<close>\<close>

text \<open>Lines 51-81: the nested \<^verbatim>\<open>message\<close> object.\<close>

definition messageData :: "evtMessage \<Rightarrow> waMessage \<Rightarrow> payload" where
  "messageData message m =
     (let md = [''ID'' \<mapsto> JString (msg_ID message),
                ''MessageOrigin'' \<mapsto> JString (msg_QuotedMessage message),
                ''RepliedId'' \<mapsto> JString (msg_RepliedId message)];
          md = (case extendedText m of
                  Some ext \<Rightarrow>
                    if urlRegex_MatchString (ext_Text ext) then
                      (let md = (if ext_Title ext \<noteq> ''''
                                 then md(''TitleLink'' \<mapsto> JString (ext_Title ext)) else md);
                           md = (if ext_Description ext \<noteq> ''''
                                 then md(''LinkDescription'' \<mapsto> JString (ext_Description ext))
                                 else md)
                       in md(''TextMessage'' \<mapsto> JString (ext_Text ext)))
                    else md(''TextMessage'' \<mapsto> JString (msg_Text message))
                | None \<Rightarrow> md(''TextMessage'' \<mapsto> JString (msg_Text message)))
      in (case pollUpdateMsg m of
            Some pollUpdate \<Rightarrow>
              md(''PollUpdate'' \<mapsto>
                   JObject [''PollID'' \<mapsto> JString (pollCreationMessageKey_ID pollUpdate),
                            ''SelectedOptions'' \<mapsto> JArray []])
          | None \<Rightarrow> md))"

text \<open>Lines 45-99: the keys set before the chat identity is parsed.\<close>

definition payload_head :: "env \<Rightarrow> event \<Rightarrow> payload" where
  "payload_head E evt =
     (let message = buildEventMessage E evt;
          waReaction = buildEventReaction E evt;
          forwarded = buildForwarded E evt;
          body = Map.empty;
          body = (if info_SourceString (Info evt) \<noteq> ''''
                  then body(''SenderNumber'' \<mapsto> JString (info_SourceString (Info evt)))
                  else body);
          body = body(''message'' \<mapsto> JObject (messageData message (Message evt)));
          body = (if info_PushName (Info evt) \<noteq> ''''
                  then body(''PushName'' \<mapsto> JString (info_PushName (Info evt))) else body);
          body = (if reaction_Message waReaction \<noteq> ''''
                  then body(''reaction'' \<mapsto> JReaction waReaction) else body);
          body = (if IsViewOnce evt then body(''view_once'' \<mapsto> JBool (IsViewOnce evt)) else body);
          body = (if forwarded then body(''forwarded'' \<mapsto> JBool forwarded) else body)
      in (if format_RFC3339 E (info_Timestamp (Info evt)) \<noteq> ''''
          then body(''timestamp'' \<mapsto> JString (format_RFC3339 E (info_Timestamp (Info evt))))
          else body))"

text \<open>
  Lines 140-155: the contact objects built from the matches of the expression. A match
  always has its two groups, so the branch for \<^verbatim>\<open>len(match) != 3\<close>, which only
  logs, is never taken.
\<close>

definition contacts_of_raw :: "string \<Rightarrow> jvalue list" where
  "contacts_of_raw rawMessage =
     map (\<lambda>(name, vcard).
            JObject [''displayName'' \<mapsto> JString name,
                     ''vcard'' \<mapsto> JString (unescape_newlines vcard)])
         (contact_matches 0 rawMessage)"

text \<open>
  Lines 105-158, once the chat identity has been parsed into \<open>jid\<close>: \<^verbatim>\<open>IsGroup\<close>,
  the group name, \<^verbatim>\<open>MyNumber\<close>, \<^verbatim>\<open>Type\<close>, \<^verbatim>\<open>Port\<close> and the contacts.
\<close>

definition payload_kind :: "env \<Rightarrow> event \<Rightarrow> jid \<Rightarrow> payload \<Rightarrow> payload" where
  "payload_kind E evt jid body0 =
     (let message = buildEventMessage E evt;
          IsGroup = Contains (info_ChatString (Info evt)) ''@g.us'';
          body = body0(''IsGroup'' \<mapsto> JBool IsGroup);
          body = (if IsGroup then
                    (case GetGroupName E jid of
                       Inl err \<Rightarrow> body
                     | Inr GroupName \<Rightarrow>
                         if GroupName \<noteq> '''' then body(''GroupName'' \<mapsto> JString GroupName)
                         else body)
                  else body);
          MyNumber = (if waCli_present E \<and> waCli_StoreID E \<noteq> None
                      then extractPhoneNumber E (info_SourceString (Info evt)) =
                           extractPhoneNumber E (the (waCli_StoreID E))
                      else False);
          body = body(''MyNumber'' \<mapsto> JBool MyNumber);
          body = body(''Type'' \<mapsto> JString (determineMessageType E evt (msg_Text message)));
          body = body(''Port'' \<mapsto> JString (AppPort E));
          body = (case contactMsg (Message evt) of
                    Some contactMessage \<Rightarrow>
                      body(''contact'' \<mapsto>
                        JArray [JObject
                          [''displayName'' \<mapsto> JString (contact_DisplayName contactMessage),
                           ''vcard'' \<mapsto> JString (contact_Vcard contactMessage)]])
                  | None \<Rightarrow> body)
      in (if multi_contact E evt
          then (body(''contact'' \<mapsto> JArray (contacts_of_raw (format_Message E (Message evt)))))
                 (''Type'' \<mapsto> JString ''contact_message'')
          else body))"

text \<open>
  One of the five blocks of lines 160-211: when the variant is populated, extract it and
  store the path under \<open>key\<close>, or fail with the error of that block.
\<close>

definition extract_into ::
  "env \<Rightarrow> string \<Rightarrow> downloadable option \<Rightarrow> payload \<Rightarrow> error + payload" where
  "extract_into E key media body =
     (case media of
        None \<Rightarrow> Inr body
      | Some d \<Rightarrow>
          (case ExtractMedia E (PathMedia E) d of
             Inl err \<Rightarrow> Inl (WebhookError (''Failed to download '' @ key @ '': '' @ err))
           | Inr path \<Rightarrow> Inr (body(key \<mapsto> JString path))))"

text \<open>A pass-through key of lines 184-195.\<close>

definition pass_through :: "string \<Rightarrow> proto option \<Rightarrow> payload \<Rightarrow> payload" where
  "pass_through key v body = (case v of None \<Rightarrow> body | Some x \<Rightarrow> body(key \<mapsto> JProto x))"

text \<open>Lines 160-213, in the order of the source; the first failing extraction returns.\<close>

definition payload_media :: "env \<Rightarrow> event \<Rightarrow> payload \<Rightarrow> error + payload" where
  "payload_media E evt body =
     (let m = Message evt in
      case extract_into E ''audio'' (map_option DAudio (audioMsg m)) body of
        Inl e \<Rightarrow> Inl e
      | Inr body \<Rightarrow>
      (case extract_into E ''document'' (map_option DDocument (documentMsg m)) body of
        Inl e \<Rightarrow> Inl e
      | Inr body \<Rightarrow>
      (case extract_into E ''image'' (map_option DImage (imageMsg m)) body of
        Inl e \<Rightarrow> Inl e
      | Inr body \<Rightarrow>
      (let body = pass_through ''list'' (listMsg m) body;
           body = pass_through ''live_location'' (liveLocationMsg m) body;
           body = pass_through ''location'' (locationMsg m) body;
           body = pass_through ''order'' (orderMsg m) body
       in
       case extract_into E ''sticker'' (map_option DSticker (stickerMsg m)) body of
        Inl e \<Rightarrow> Inl e
      | Inr body \<Rightarrow>
          extract_into E ''video'' (map_option DVideo (videoMsg m)) body))))"

text \<open>
  The whole function. The source fills the first keys before it parses the chat identity
  and returns nil when the parsing fails; nothing of the map is seen in that case, so the
  model parses first.
\<close>

definition createPayload :: "env \<Rightarrow> event \<Rightarrow> error + payload" where
  "createPayload E evt =
     (case types_ParseJID E (info_ChatString (Info evt)) of
        Inl err \<Rightarrow> Inl (WebhookError (''Invalid JID: '' @ err))
      | Inr jid \<Rightarrow> payload_media E evt (payload_kind E evt jid (payload_head E evt)))"

subsection \<open>\<^verbatim>\<open>forwardToWebhook\<close>\<close>

definition forwardToWebhook :: "env \<Rightarrow> event \<Rightarrow> io_event list \<Rightarrow> error option \<times> io_event list" where
  "forwardToWebhook E evt tr =
     (case createPayload E evt of
        Inl err \<Rightarrow> (Some err, tr)
      | Inr pl \<Rightarrow> forward_loop E pl (WhatsappWebhook E) tr)"

subsection \<open>The \<^verbatim>\<open>POST /call-ended\<close> handler and its cache\<close>

text \<open>
  The process-wide state the handler works on: the \<^verbatim>\<open>sync.Map\<close>
  \<^verbatim>\<open>callWebhookCache\<close> from key to insertion time; the goroutines asleep until
  they delete a key (wake-up time and key); the calls of \<^verbatim>\<open>RejectCall\<close> made so
  far; and the payloads of the webhook goroutines started so far. Times are
  nanoseconds.
\<close>

record server =
  callWebhookCache :: "string \<rightharpoonup> int"
  sleepers :: "(int \<times> string) list"
  rejectCalls :: "(jid \<times> string) list"
  webhookJobs :: "payload list"

definition cacheTTL :: int where
  "cacheTTL = 5 * 60 * 1000000000"

text \<open>\<^verbatim>\<open>sync.Map.LoadOrStore\<close>: the value now stored under the key, and whether it was loaded.\<close>

definition LoadOrStore :: "(string \<rightharpoonup> int) \<Rightarrow> string \<Rightarrow> int \<Rightarrow> (int \<times> bool) \<times> (string \<rightharpoonup> int)" where
  "LoadOrStore m key v =
     (case m key of
        Some actual \<Rightarrow> ((actual, True), m)
      | None \<Rightarrow> ((v, False), m(key \<mapsto> v)))"

definition Delete :: "(string \<rightharpoonup> int) \<Rightarrow> string \<Rightarrow> (string \<rightharpoonup> int)" where
  "Delete m key = m(key := None)"

text \<open>
  The guard of the specification, as the handler performs it: \<open>True\<close> for the first
  observer of the key.
\<close>

definition Guard :: "(string \<rightharpoonup> int) \<Rightarrow> string \<Rightarrow> int \<Rightarrow> bool \<times> (string \<rightharpoonup> int)" where
  "Guard m key now = (\<not> snd (fst (LoadOrStore m key now)), snd (LoadOrStore m key now))"

text \<open>The parsed request body, and a response: status code and JSON fields.\<close>

record call_request =
  CallID :: string
  Phone :: string

datatype response = Response nat "(string \<times> string) list"

text \<open>
  The goroutines of lines 282-285 whose sleep is over at time \<open>now\<close> delete their
  keys, in the order in which they were started.
\<close>

fun wake :: "int \<Rightarrow> (int \<times> string) list \<Rightarrow> (string \<rightharpoonup> int) \<Rightarrow> (string \<rightharpoonup> int)" where
  "wake now [] m = m"
| "wake now ((due, key) # rest) m =
     wake now rest (if due \<le> now then Delete m key else m)"

definition run_sleepers :: "int \<Rightarrow> server \<Rightarrow> server" where
  "run_sleepers now st =
     st\<lparr>callWebhookCache := wake now (sleepers st) (callWebhookCache st),
        sleepers := filter (\<lambda>(due, key). \<not> due \<le> now) (sleepers st)\<rparr>"

text \<open>The payload of lines 295-302.\<close>

definition call_payload :: "env \<Rightarrow> int \<Rightarrow> call_request \<Rightarrow> payload" where
  "call_payload E now request =
     [''SenderNumber'' \<mapsto> JString (Phone request),
      ''Call_Id'' \<mapsto> JString (CallID request),
      ''Type'' \<mapsto> JString ''call_received'',
      ''Status_Call'' \<mapsto> JString ''rejected'',
      ''timestamp'' \<mapsto> JString (format_RFC3339 E now),
      ''IsGroup'' \<mapsto> JBool False]"

text \<open>
  The handler, lines 249-316, run at time \<open>now\<close>. \<open>request\<close> is \<open>None\<close> when
  \<^verbatim>\<open>BodyParser\<close> fails. The webhook goroutine is recorded as started; what it does
  is \<open>call_webhook_job\<close>.
\<close>

definition call_ended :: "env \<Rightarrow> int \<Rightarrow> call_request option \<Rightarrow> server \<Rightarrow> response \<times> server" where
  "call_ended E now request st =
     (case request of
        None \<Rightarrow> (Response 400 [(''error'', ''Invalid request body'')], st)
      | Some r \<Rightarrow>
     (if CallID r = '''' \<or> Phone r = '''' then
        (Response 400 [(''error'', ''call_id and Phone are required'')], st)
      else if \<not> waCli_present E then
        (Response 500 [(''error'', ''WhatsApp client not initialized'')], st)
      else
     (case whatsapp_ParseJID E (Phone r) of
        Inl err \<Rightarrow> (Response 400 [(''error'', ''Invalid Phone: '' @ err)], st)
      | Inr jid \<Rightarrow>
     (let cacheKey = CallID r @ '':'' @ Phone r;
          ((actual, exists), cache) = LoadOrStore (callWebhookCache st) cacheKey now
      in
      if exists then
        (Response 200 [(''status'', ''call rejected (already processed)''),
                       (''call_id'', CallID r), (''Phone'', Phone r)],
         st\<lparr>callWebhookCache := cache\<rparr>)
      else
     (let st = st\<lparr>callWebhookCache := cache,
                   sleepers := sleepers st @ [(now + cacheTTL, cacheKey)]\<rparr>;
          err = waCli_RejectCall E (rejectCalls st) jid (CallID r);
          st = st\<lparr>rejectCalls := rejectCalls st @ [(jid, CallID r)]\<rparr>
      in
      case err of
        Some e \<Rightarrow>
          (Response 500 [(''error'', ''Failed to reject call: '' @ e)],
           st\<lparr>callWebhookCache := Delete (callWebhookCache st) cacheKey\<rparr>)
      | None \<Rightarrow>
          (Response 200 [(''status'', ''call rejected''),
                         (''call_id'', CallID r), (''Phone'', Phone r)],
           if WhatsappWebhook E \<noteq> []
           then st\<lparr>webhookJobs := webhookJobs st @ [call_payload E now r]\<rparr>
           else st))))))"

text \<open>The request reaches the handler at time \<open>now\<close>, after the sleepers due by then.\<close>

definition observe :: "env \<Rightarrow> int \<Rightarrow> call_request option \<Rightarrow> server \<Rightarrow> response \<times> server" where
  "observe E now request st = call_ended E now request (run_sleepers now st)"

text \<open>
  The webhook goroutine of lines 303-307: every configured URL is submitted to; an
  error is logged and the loop goes on.
\<close>

fun call_webhook_job :: "env \<Rightarrow> payload \<Rightarrow> string list \<Rightarrow> io_event list \<Rightarrow> io_event list" where
  "call_webhook_job E pl [] tr = tr"
| "call_webhook_job E pl (url # urls) tr =
     call_webhook_job E pl urls (snd (SubmitWebhook E pl url tr))"

text \<open>The key the handler guards a request with.\<close>

definition cacheKey_of :: "call_request \<Rightarrow> string" where
  "cacheKey_of r = CallID r @ '':'' @ Phone r"

text \<open>A request that gets as far as the guard: both fields, a client, a phone that parses.\<close>

definition reaches_guard :: "env \<Rightarrow> call_request \<Rightarrow> bool" where
  "reaches_guard E r =
     (CallID r \<noteq> '''' \<and> Phone r \<noteq> '''' \<and> waCli_present E \<and>
      (case whatsapp_ParseJID E (Phone r) of Inl err \<Rightarrow> False | Inr jid \<Rightarrow> True))"

subsection \<open>Reading events and payloads\<close>

text \<open>How many of the variants the code looks at are populated.\<close>

definition populated :: "waMessage \<Rightarrow> nat" where
  "populated m =
     of_bool (conversation m \<noteq> '''') + of_bool (extendedText m \<noteq> None) +
     of_bool (audioMsg m \<noteq> None) + of_bool (imageMsg m \<noteq> None) +
     of_bool (videoMsg m \<noteq> None) + of_bool (documentMsg m \<noteq> None) +
     of_bool (stickerMsg m \<noteq> None) + of_bool (contactMsg m \<noteq> None) +
     of_bool (locationMsg m \<noteq> None) + of_bool (liveLocationMsg m \<noteq> None) +
     of_bool (listMsg m \<noteq> None) + of_bool (orderMsg m \<noteq> None) +
     of_bool (paymentInviteMsg m \<noteq> None) + of_bool (pollCreationV3 m \<noteq> None) +
     of_bool (pollCreationV4 m \<noteq> None) + of_bool (pollCreationV5 m \<noteq> None) +
     of_bool (pollUpdateMsg m \<noteq> None) + of_bool (reactionMsg m \<noteq> None)"

text \<open>
  A text event: plain or extended text is populated and no variant that
  \<^verbatim>\<open>determineMessageType\<close> checks before the text is.
\<close>

definition text_event :: "waMessage \<Rightarrow> bool" where
  "text_event m =
     ((conversation m \<noteq> '''' \<or> extendedText m \<noteq> None) \<and>
      audioMsg m = None \<and> imageMsg m = None \<and> videoMsg m = None \<and>
      documentMsg m = None \<and> stickerMsg m = None \<and> contactMsg m = None \<and>
      locationMsg m = None \<and> liveLocationMsg m = None \<and> listMsg m = None \<and>
      orderMsg m = None \<and> paymentInviteMsg m = None \<and> pollCreationV3 m = None \<and>
      pollCreationV4 m = None \<and> pollCreationV5 m = None \<and> pollUpdateMsg m = None \<and>
      reactionMsg m = None)"

text \<open>The populated media of a message, in the order in which they are extracted.\<close>

definition opt_list :: "'a option \<Rightarrow> 'a list" where
  "opt_list v = (case v of None \<Rightarrow> [] | Some x \<Rightarrow> [x])"

definition downloads :: "waMessage \<Rightarrow> downloadable list" where
  "downloads m =
     opt_list (map_option DAudio (audioMsg m)) @
     opt_list (map_option DDocument (documentMsg m)) @
     opt_list (map_option DImage (imageMsg m)) @
     opt_list (map_option DSticker (stickerMsg m)) @
     opt_list (map_option DVideo (videoMsg m))"


text \<open>The nested \<^verbatim>\<open>message\<close> object of a payload, empty when there is none.\<close>

definition message_of :: "payload \<Rightarrow> payload" where
  "message_of body = (case body ''message'' of Some (JObject md) \<Rightarrow> md | _ \<Rightarrow> Map.empty)"



subsection \<open>The resolved text of an event\<close>

text \<open>
  Modelled from the spec: the \<^verbatim>\<open>Text\<close> of the struct that \<^verbatim>\<open>buildEventMessage\<close>
  returns. That function belongs to the package and is not among the sources; only its
  call (line 38) is. The specification names its result the resolved text of the event,
  to which the text rule of the classification is applied (plain text or extended text
  present, then "if the text matches a URL pattern"): the text of the extended-text
  message when the event has one, the plain text otherwise.
\<close>

definition resolved_text :: "waMessage \<Rightarrow> string" where
  "resolved_text m =
     (case extendedText m of Some ext \<Rightarrow> ext_Text ext | None \<Rightarrow> conversation m)"

text \<open>
  Modelled from the spec: a gateway whose \<^verbatim>\<open>buildEventMessage\<close> (not among the
  sources) resolves the text in that way. The other fields of its result, of which the
  specification says nothing, stay what they are.
\<close>

definition with_resolved_text :: "env \<Rightarrow> env" where
  "with_resolved_text E =
     E\<lparr>buildEventMessage :=
         (\<lambda>evt. (buildEventMessage E evt)\<lparr>msg_Text := resolved_text (Message evt)\<rparr>)\<rparr>"

subsection \<open>Concrete inputs\<close>

text \<open>
  A gateway with two subscribers. The first never answers; the second accepts every
  request. Parsing, signing and extraction succeed, except that the media reference
  \<^verbatim>\<open>gone\<close> cannot be downloaded, the chat \<^verbatim>\<open>bad\<close> does not parse and the group
  \<^verbatim>\<open>nogroup@g.us\<close> has no metadata. The dump of a message shows its text and
  the captions, which are what the media references stand for here.
  \<^verbatim>\<open>RejectCall\<close> fails the first time it is invoked and succeeds afterwards.
\<close>

definition dump_opt :: "string \<Rightarrow> proto option \<Rightarrow> string" where
  "dump_opt name v = (case v of None \<Rightarrow> [] | Some x \<Rightarrow> name @ '':{caption:'' @ x @ ''} '')"

definition dump :: "waMessage \<Rightarrow> string" where
  "dump m = ''conversation:'' @ conversation m @ '' '' @
            dump_opt ''imageMessage'' (imageMsg m) @
            dump_opt ''videoMessage'' (videoMsg m) @
            dump_opt ''documentMessage'' (documentMsg m)"

definition gateway :: env where
  "gateway =
     \<lparr>WhatsappWebhook = [''http://down.example/hook'', ''http://up.example/hook''],
      WhatsappWebhookSecret = ''secret'',
      PathMedia = ''statics/media'',
      AppPort = ''3000'',
      json_Marshal = (\<lambda>pl. Inr ''{}''),
      http_NewRequest_err = (\<lambda>method url. None),
      getMessageDigestOrSignature = (\<lambda>body key. Inr ''00ff''),
      client_Do = (\<lambda>tr req. if req_url req = ''http://down.example/hook''
                             then Some ''connection refused'' else None),
      buildEventMessage = (\<lambda>evt.
         \<lparr>msg_ID = ''3EB0'',
          msg_Text = (case extendedText (Message evt) of
                        Some ext \<Rightarrow> ext_Text ext | None \<Rightarrow> conversation (Message evt)),
          msg_RepliedId = '''', msg_QuotedMessage = ''''\<rparr>),
      buildEventReaction = (\<lambda>evt. \<lparr>reaction_Message = ''''\<rparr>),
      buildForwarded = (\<lambda>evt. False),
      format_RFC3339 = (\<lambda>t. ''2024-01-01T00:00:00Z''),
      format_Message = dump,
      types_ParseJID = (\<lambda>s. if s = ''bad'' then Inl ''unexpected number of @s'' else Inr s),
      whatsapp_ParseJID = (\<lambda>s. Inr (s @ ''@s.whatsapp.net'')),
      GetGroupName = (\<lambda>j. if j = ''nogroup@g.us'' then Inl ''not found'' else Inr ''Family''),
      waCli_present = True,
      waCli_StoreID = Some ''5511999@s.whatsapp.net'',
      extractPhoneNumber = takeWhile (\<lambda>c. c \<noteq> CHR ''@''),
      ExtractMedia = (\<lambda>dir d. if d = DImage ''gone'' then Inl ''404''
                                else Inr (dir @ ''/file'')),
      waCli_RejectCall = (\<lambda>earlier j callId. if earlier = [] then Some ''timeout'' else None)\<rparr>"

text \<open>The same gateway with a client whose \<^verbatim>\<open>RejectCall\<close> always succeeds.\<close>

definition gateway_ok :: env where
  "gateway_ok = gateway\<lparr>waCli_RejectCall := (\<lambda>earlier j callId. None)\<rparr>"

text \<open>A subscriber that refuses twice and then accepts.\<close>

definition gateway_flaky :: env where
  "gateway_flaky =
     gateway\<lparr>client_Do := (\<lambda>tr req. if length tr < 4 then Some ''reset'' else None)\<rparr>"

definition no_message :: waMessage where
  "no_message =
     \<lparr>conversation = '''', extendedText = None, audioMsg = None, imageMsg = None,
      videoMsg = None, documentMsg = None, stickerMsg = None, contactMsg = None,
      locationMsg = None, liveLocationMsg = None, listMsg = None, orderMsg = None,
      paymentInviteMsg = None, pollCreationV3 = None, pollCreationV4 = None,
      pollCreationV5 = None, pollUpdateMsg = None, reactionMsg = None\<rparr>"

definition text_info :: messageInfo where
  "text_info =
     \<lparr>info_SourceString = ''5511888@s.whatsapp.net'',
      info_ChatString = ''5511888@s.whatsapp.net'',
      info_PushName = ''Ana'', info_Timestamp = 1704067200, info_Type = ''text''\<rparr>"

text \<open>A text message with a link.\<close>

definition link_event :: event where
  "link_event =
     \<lparr>Info = text_info,
      Message = no_message\<lparr>conversation := ''check https://example.com now''\<rparr>,
      IsViewOnce = False\<rparr>"

text \<open>An extended text message with a link and its preview.\<close>

definition preview_event :: event where
  "preview_event =
     \<lparr>Info = text_info,
      Message = no_message\<lparr>extendedText :=
        Some \<lparr>ext_Text = ''see http://a.b'', ext_Title = ''A'', ext_Description = ''B''\<rparr>\<rparr>,
      IsViewOnce = False\<rparr>"

text \<open>
  A picture sent to a chat whose server is \<^verbatim>\<open>g.us.example\<close>, with a caption
  that holds the word \<^verbatim>\<open>contactsArrayMessage\<close>.
\<close>

definition captioned_image_event :: event where
  "captioned_image_event =
     \<lparr>Info = \<lparr>info_SourceString = ''5511888@g.us.example'',
              info_ChatString = ''5511888@g.us.example'',
              info_PushName = ''Ana'', info_Timestamp = 1704067200, info_Type = ''media''\<rparr>,
      Message = no_message\<lparr>imageMsg := Some ''contactsArrayMessage''\<rparr>,
      IsViewOnce = False\<rparr>"

text \<open>A picture in a group whose name cannot be looked up.\<close>

definition group_image_event :: event where
  "group_image_event =
     \<lparr>Info = \<lparr>info_SourceString = ''5511888@s.whatsapp.net in nogroup@g.us'',
              info_ChatString = ''nogroup@g.us'',
              info_PushName = ''Ana'', info_Timestamp = 1704067200, info_Type = ''media''\<rparr>,
      Message = no_message\<lparr>imageMsg := Some ''holiday''\<rparr>,
      IsViewOnce = False\<rparr>"

text \<open>A picture that can no longer be downloaded, and a message from an unparsable chat.\<close>

definition gone_image_event :: event where
  "gone_image_event = group_image_event\<lparr>Message := no_message\<lparr>imageMsg := Some ''gone''\<rparr>\<rparr>"

definition bad_chat_event :: event where
  "bad_chat_event = link_event\<lparr>Info := text_info\<lparr>info_ChatString := ''bad''\<rparr>\<rparr>"

text \<open>An event whose source and chat identities are empty.\<close>

definition anonymous_event :: event where
  "anonymous_event =
     \<lparr>Info = \<lparr>info_SourceString = '''', info_ChatString = '''', info_PushName = '''',
              info_Timestamp = 0, info_Type = ''text''\<rparr>,
      Message = no_message\<lparr>conversation := ''hi''\<rparr>,
      IsViewOnce = False\<rparr>"

text \<open>
  A text message with a link, sent in a \<^verbatim>\<open>media\<close> envelope, whose text holds the
  word \<^verbatim>\<open>contactsArrayMessage\<close>.
\<close>

definition media_text_event :: event where
  "media_text_event =
     \<lparr>Info = text_info\<lparr>info_Type := ''media''\<rparr>,
      Message = no_message\<lparr>conversation := ''contactsArrayMessage https://example.com''\<rparr>,
      IsViewOnce = False\<rparr>"

definition abc_request :: call_request where
  "abc_request = \<lparr>CallID = ''ABC'', Phone = ''+1555''\<rparr>"

definition fresh_server :: server where
  "fresh_server =
     \<lparr>callWebhookCache = Map.empty, sleepers = [], rejectCalls = [], webhookJobs = []\<rparr>"

text \<open>
  The server after the request has been handled at time 0, when \<^verbatim>\<open>RejectCall\<close>
  fails, and after it has been handled again a minute later, when it succeeds.
\<close>

definition after_failed_attempt :: server where
  "after_failed_attempt = snd (observe gateway 0 (Some abc_request) fresh_server)"

definition after_retry :: server where
  "after_retry = snd (observe gateway 60000000000 (Some abc_request) after_failed_attempt)"

text \<open>The request the gateway hands to its HTTP client for a subscriber.\<close>

definition hook_request :: "string \<Rightarrow> http_request" where
  "hook_request url =
     \<lparr>req_method = ''POST'', req_url = url, req_body = ''{}'',
      req_headers = [(''X-Hub-Signature-256'', ''sha256=00ff''),
                     (''Content-Type'', ''application/json'')]\<rparr>"

section \<open>Delivery\<close>

subsection \<open>The retry loop\<close>

lemma itoa_5: "itoa 5 = ''5''"
  by code_simp

lemma backoff_snoc:
  "backoff u (Suc k) d = backoff u k d @ [HttpDo u, Sleep (d * 2 ^ k)]"
proof (induction k arbitrary: d)
  case 0
  show ?case by simp
next
  case (Suc k)
  have "backoff u (Suc (Suc k)) d = HttpDo u # Sleep d # backoff u (Suc k) (d * 2)"
    by simp
  also have "\<dots> = HttpDo u # Sleep d # (backoff u k (d * 2) @ [HttpDo u, Sleep (d * 2 * 2 ^ k)])"
    by (simp only: Suc.IH)
  finally show ?case by (simp add: mult.assoc)
qed

text \<open>
  \<open>k\<close> failures in a row take the loop \<open>k\<close> iterations further: the trace grows by
  \<open>backoff\<close>, the delay has doubled \<open>k\<close> times and \<^verbatim>\<open>err\<close> holds the last failure.
\<close>

lemma submit_loop_failures:
  assumes "attempt + k \<le> maxAttempts"
    and "\<forall>i<k. client_Do E (tr @ backoff (req_url req) i d) req \<noteq> None"
  shows "submit_loop E req attempt d err tr =
           submit_loop E req (attempt + k) (d * 2 ^ k)
             (if k = 0 then err else client_Do E (tr @ backoff (req_url req) (k - 1) d) req)
             (tr @ backoff (req_url req) k d)"
  using assms
proof (induction k arbitrary: attempt d err tr)
  case 0
  show ?case by simp
next
  case (Suc k)
  let ?u = "req_url req"
  from Suc.prems(2) have "client_Do E (tr @ backoff ?u 0 d) req \<noteq> None" by blast
  then obtain e where e: "client_Do E tr req = Some e" by auto
  from Suc.prems(1) have lt: "attempt < maxAttempts" by simp
  have step: "submit_loop E req attempt d err tr =
      submit_loop E req (attempt + 1) (d * 2) (Some e) (tr @ [HttpDo ?u, Sleep d])"
    using lt e by (subst submit_loop.simps) simp
  have later: "\<forall>i<k. client_Do E ((tr @ [HttpDo ?u, Sleep d]) @ backoff ?u i (d * 2)) req \<noteq> None"
  proof (intro allI impI)
    fix i assume "i < k"
    then have "Suc i < Suc k" by simp
    then have "client_Do E (tr @ backoff ?u (Suc i) d) req \<noteq> None"
      using Suc.prems(2) by blast
    then show "client_Do E ((tr @ [HttpDo ?u, Sleep d]) @ backoff ?u i (d * 2)) req \<noteq> None"
      by simp
  qed
  have "submit_loop E req (attempt + 1) (d * 2) (Some e) (tr @ [HttpDo ?u, Sleep d]) =
      submit_loop E req (attempt + 1 + k) (d * 2 * 2 ^ k)
        (if k = 0 then Some e
         else client_Do E ((tr @ [HttpDo ?u, Sleep d]) @ backoff ?u (k - 1) (d * 2)) req)
        ((tr @ [HttpDo ?u, Sleep d]) @ backoff ?u k (d * 2))"
    using Suc.prems(1) later by (intro Suc.IH) simp_all
  also have "(if k = 0 then Some e
         else client_Do E ((tr @ [HttpDo ?u, Sleep d]) @ backoff ?u (k - 1) (d * 2)) req)
      = client_Do E (tr @ backoff ?u k d) req"
    using e by (cases k) simp_all
  finally show ?case
    using step by (simp add: mult.assoc)
qed

lemma submit_loop_exhausted:
  assumes "\<forall>i<5. client_Do E (tr @ backoff (req_url req) i d) req \<noteq> None"
  shows "\<exists>e. submit_loop E req 0 d None tr =
           (Some (WebhookError (''Failed after 5 attempts: '' @ e)),
            tr @ backoff (req_url req) 5 d)"
proof -
  have "submit_loop E req 0 d None tr =
      submit_loop E req (0 + 5) (d * 2 ^ 5)
        (if (5::nat) = 0 then None else client_Do E (tr @ backoff (req_url req) (5 - 1) d) req)
        (tr @ backoff (req_url req) 5 d)"
    using assms by (intro submit_loop_failures) (simp_all add: maxAttempts_def)
  moreover obtain e where "client_Do E (tr @ backoff (req_url req) 4 d) req = Some e"
    using assms by fastforce
  ultimately have "submit_loop E req 0 d None tr =
           (Some (WebhookError (''Failed after 5 attempts: '' @ e)),
            tr @ backoff (req_url req) 5 d)"
    by (subst (asm) (2) submit_loop.simps) (simp add: maxAttempts_def itoa_5 fmt_err_def)
  then show ?thesis by blast
qed

lemma submit_loop_success:
  assumes "k < maxAttempts"
    and "\<forall>i<k. client_Do E (tr @ backoff (req_url req) i d) req \<noteq> None"
    and "client_Do E (tr @ backoff (req_url req) k d) req = None"
  shows "submit_loop E req 0 d None tr =
           (None, tr @ backoff (req_url req) k d @ [HttpDo (req_url req)])"
proof -
  have "submit_loop E req 0 d None tr =
      submit_loop E req (0 + k) (d * 2 ^ k)
        (if k = 0 then None else client_Do E (tr @ backoff (req_url req) (k - 1) d) req)
        (tr @ backoff (req_url req) k d)"
    using assms by (intro submit_loop_failures) simp_all
  then show ?thesis
    using assms(1,3) by (subst (asm) (2) submit_loop.simps) simp
qed

subsection \<open>From the loop to \<^verbatim>\<open>SubmitWebhook\<close>\<close>

lemma prepared_url: "prepared E pl url = Some req \<Longrightarrow> req_url req = url"
  by (auto simp: prepared_def http_NewRequest_def header_Set_def
           split: sum.splits option.splits)

lemma prepared_SubmitWebhook:
  "prepared E pl url = Some req \<Longrightarrow>
     SubmitWebhook E pl url tr = submit_loop E req 0 Second None tr"
  by (auto simp: prepared_def SubmitWebhook_def split: sum.splits)

lemma backoff_5:
  "backoff u 5 d =
     [HttpDo u, Sleep d, HttpDo u, Sleep (d * 2), HttpDo u, Sleep (d * 2 * 2),
      HttpDo u, Sleep (d * 2 * 2 * 2), HttpDo u, Sleep (d * 2 * 2 * 2 * 2)]"
  by (simp add: eval_nat_numeral)

lemma attempts_of_backoff: "attempts_of (backoff u k d) = replicate k u"
  by (induction k arbitrary: d) (simp_all add: attempts_of_def)

lemma length_sleeps_of_backoff: "length (sleeps_of (backoff u k d)) = k"
  by (induction k arbitrary: d) (simp_all add: sleeps_of_def)

lemma attempts_of_append: "attempts_of (xs @ ys) = attempts_of xs @ attempts_of ys"
  by (simp add: attempts_of_def)

lemma sleeps_of_append: "sleeps_of (xs @ ys) = sleeps_of xs @ sleeps_of ys"
  by (simp add: sleeps_of_def)

lemma SubmitWebhook_exhausted:
  assumes "prepared E pl url = Some req"
    and "\<forall>tr'. client_Do E tr' req \<noteq> None"
  shows "\<exists>e. SubmitWebhook E pl url tr =
           (Some (WebhookError (''Failed after 5 attempts: '' @ e)),
            tr @ backoff url 5 Second)"
  using submit_loop_exhausted [of E tr req Second] assms
  by (simp add: prepared_SubmitWebhook prepared_url)

subsection \<open>The retry policy\<close>

text \<open>
  Claim C3. When the request can be built (the payload serialises, the URL is accepted
  and the signature is computed) and the client fails on every attempt, the delivery
  makes exactly five attempts, all to the given URL, the delays between one attempt and
  the next are 1, 2, 4 and 8 seconds, and the result is the error
  \<^verbatim>\<open>Failed after 5 attempts: ...\<close>. When instead the first \<open>k < 5\<close> attempts fail and
  the next one succeeds, the result is nil and that successful attempt is the last
  thing the delivery does: \<open>k + 1\<close> attempts, \<open>k\<close> sleeps, nothing after.
\<close>

theorem SubmitWebhook_retry_policy:
  assumes "prepared E pl url = Some req"
  shows "((\<forall>tr'. client_Do E tr' req \<noteq> None) \<longrightarrow>
            (\<exists>e new.
               SubmitWebhook E pl url tr =
                 (Some (WebhookError (''Failed after 5 attempts: '' @ e)), tr @ new) \<and>
               attempts_of new = replicate 5 url \<and>
               map unat (inter_attempt_delays new) =
                 [1000000000, 2000000000, 4000000000, 8000000000])) \<and>
         (\<forall>k<5.
            (\<forall>i<k. client_Do E (tr @ backoff url i Second) req \<noteq> None) \<and>
            client_Do E (tr @ backoff url k Second) req = None \<longrightarrow>
            (\<exists>new.
               SubmitWebhook E pl url tr = (None, tr @ new) \<and>
               length (attempts_of new) = k + 1 \<and>
               length (sleeps_of new) = k \<and>
               last new = HttpDo url))"
proof (intro conjI impI allI)
  assume fails: "\<forall>tr'. client_Do E tr' req \<noteq> None"
  obtain e where run: "SubmitWebhook E pl url tr =
      (Some (WebhookError (''Failed after 5 attempts: '' @ e)), tr @ backoff url 5 Second)"
    using SubmitWebhook_exhausted [OF assms fails] by blast
  have delays: "map unat (inter_attempt_delays (backoff url 5 Second)) =
      [1000000000, 2000000000, 4000000000, 8000000000]"
    by (simp add: backoff_5 inter_attempt_delays_def sleeps_of_def Second_def)
  show "\<exists>e new.
      SubmitWebhook E pl url tr =
        (Some (WebhookError (''Failed after 5 attempts: '' @ e)), tr @ new) \<and>
      attempts_of new = replicate 5 url \<and>
      map unat (inter_attempt_delays new) =
        [1000000000, 2000000000, 4000000000, 8000000000]"
    by (rule exI [of _ e], rule exI [of _ "backoff url 5 Second"], intro conjI)
      (rule run, rule attempts_of_backoff, rule delays)
next
  fix k :: nat
  assume k: "k < 5"
    and outcome: "(\<forall>i<k. client_Do E (tr @ backoff url i Second) req \<noteq> None) \<and>
                 client_Do E (tr @ backoff url k Second) req = None"
  have u: "req_url req = url" by (rule prepared_url [OF assms])
  have "submit_loop E req 0 Second None tr =
      (None, tr @ backoff (req_url req) k Second @ [HttpDo (req_url req)])"
    using k outcome by (intro submit_loop_success) (simp_all add: u maxAttempts_def)
  then have run: "SubmitWebhook E pl url tr = (None, tr @ (backoff url k Second @ [HttpDo url]))"
    by (simp add: prepared_SubmitWebhook [OF assms] u)
  have att: "length (attempts_of (backoff url k Second @ [HttpDo url])) = k + 1"
    by (simp add: attempts_of_append attempts_of_backoff) (simp add: attempts_of_def)
  have sl: "length (sleeps_of (backoff url k Second @ [HttpDo url])) = k"
    by (simp add: sleeps_of_append length_sleeps_of_backoff) (simp add: sleeps_of_def)
  have la: "last (backoff url k Second @ [HttpDo url]) = HttpDo url"
    by simp
  show "\<exists>new.
      SubmitWebhook E pl url tr = (None, tr @ new) \<and>
      length (attempts_of new) = k + 1 \<and>
      length (sleeps_of new) = k \<and>
      last new = HttpDo url"
    by (rule exI [of _ "backoff url k Second @ [HttpDo url]"], intro conjI)
      (rule run, rule att, rule sl, rule la)
qed

lemma prepared_gateway:
  "prepared gateway Map.empty url = Some (hook_request url)"
  by (simp add: prepared_def gateway_def http_NewRequest_def header_Set_def hook_request_def)

lemma prepared_gateway_flaky:
  "prepared gateway_flaky Map.empty url = Some (hook_request url)"
  by (simp add: prepared_def gateway_flaky_def gateway_def http_NewRequest_def header_Set_def
        hook_request_def)

theorem SubmitWebhook_retry_policy_witness:
  "prepared gateway Map.empty ''http://down.example/hook''
     = Some (hook_request ''http://down.example/hook'') \<and>
   (\<forall>tr'. client_Do gateway tr' (hook_request ''http://down.example/hook'') \<noteq> None) \<and>
   (\<exists>e new.
      SubmitWebhook gateway Map.empty ''http://down.example/hook'' [] =
        (Some (WebhookError (''Failed after 5 attempts: '' @ e)), [] @ new) \<and>
      attempts_of new = replicate 5 ''http://down.example/hook'' \<and>
      map unat (inter_attempt_delays new) =
        [1000000000, 2000000000, 4000000000, 8000000000]) \<and>
   prepared gateway_flaky Map.empty ''http://x'' = Some (hook_request ''http://x'') \<and>
   (2::nat) < 5 \<and>
   client_Do gateway_flaky ([] @ backoff ''http://x'' 0 Second) (hook_request ''http://x'')
      \<noteq> None \<and>
   client_Do gateway_flaky ([] @ backoff ''http://x'' 1 Second) (hook_request ''http://x'')
      \<noteq> None \<and>
   client_Do gateway_flaky ([] @ backoff ''http://x'' 2 Second) (hook_request ''http://x'') = None \<and>
   (\<exists>new.
      SubmitWebhook gateway_flaky Map.empty ''http://x'' [] = (None, [] @ new) \<and>
      length (attempts_of new) = 2 + 1 \<and>
      length (sleeps_of new) = 2 \<and>
      last new = HttpDo ''http://x'')"
proof -
  let ?down = "''http://down.example/hook''"
  have down: "\<forall>tr'. client_Do gateway tr' (hook_request ?down) \<noteq> None"
    by (simp add: gateway_def hook_request_def)
  have first: "client_Do gateway_flaky ([] @ backoff ''http://x'' 0 Second)
      (hook_request ''http://x'') \<noteq> None"
    by (simp add: gateway_flaky_def)
  have second: "client_Do gateway_flaky ([] @ backoff ''http://x'' 1 Second)
      (hook_request ''http://x'') \<noteq> None"
    by (simp add: gateway_flaky_def)
  have early: "\<forall>i<2. client_Do gateway_flaky ([] @ backoff ''http://x'' i Second)
      (hook_request ''http://x'') \<noteq> None"
  proof (intro allI impI)
    fix i :: nat
    assume "i < 2"
    then have "i = 0 \<or> i = 1" by auto
    then show "client_Do gateway_flaky ([] @ backoff ''http://x'' i Second)
        (hook_request ''http://x'') \<noteq> None"
      using first second by auto
  qed
  have third: "client_Do gateway_flaky ([] @ backoff ''http://x'' 2 Second)
      (hook_request ''http://x'') = None"
    by (simp add: gateway_flaky_def eval_nat_numeral)
  have two: "(2::nat) < 5" by simp
  note all_fail = SubmitWebhook_retry_policy
    [OF prepared_gateway, of ?down "[]", THEN conjunct1, THEN mp, OF down]
  note third_ok = SubmitWebhook_retry_policy
    [OF prepared_gateway_flaky, of "''http://x''" "[]", THEN conjunct2, THEN spec, of 2,
     THEN mp, OF two, THEN mp, OF conjI, OF early third]
  show ?thesis
    by (intro conjI)
      (rule prepared_gateway, rule down, rule all_fail, rule prepared_gateway_flaky,
       rule two, rule first, rule second, rule third, rule third_ok)
qed

text \<open>
  Claim C10. Under the same conditions the delivery sleeps after the fifth and last
  failed attempt as well: five sleeps of 1, 2, 4, 8 and 16 seconds, the sleep of 16
  seconds being the last thing it does before it returns the error.
\<close>

theorem SubmitWebhook_sleeps_after_last_attempt:
  assumes "prepared E pl url = Some req"
    and "\<forall>tr'. client_Do E tr' req \<noteq> None"
  shows "\<exists>e new.
           SubmitWebhook E pl url tr =
             (Some (WebhookError (''Failed after 5 attempts: '' @ e)), tr @ new) \<and>
           length (attempts_of new) = 5 \<and>
           map unat (sleeps_of new) =
             [1000000000, 2000000000, 4000000000, 8000000000, 16000000000] \<and>
           last new = Sleep (16 * Second)"
proof -
  obtain e where run: "SubmitWebhook E pl url tr =
      (Some (WebhookError (''Failed after 5 attempts: '' @ e)), tr @ backoff url 5 Second)"
    using SubmitWebhook_exhausted [OF assms] by blast
  have sl: "map unat (sleeps_of (backoff url 5 Second)) =
      [1000000000, 2000000000, 4000000000, 8000000000, 16000000000]"
    by (simp add: backoff_5 sleeps_of_def Second_def)
  have la: "last (backoff url 5 Second) = Sleep (16 * Second)"
    by (simp add: backoff_5)
  have att: "length (attempts_of (backoff url 5 Second)) = 5"
    by (simp add: attempts_of_backoff)
  show ?thesis
    by (rule exI [of _ e], rule exI [of _ "backoff url 5 Second"], intro conjI)
      (rule run, rule att, rule sl, rule la)
qed

theorem SubmitWebhook_sleeps_after_last_attempt_witness:
  "prepared gateway Map.empty ''http://down.example/hook''
     = Some (hook_request ''http://down.example/hook'') \<and>
   (\<forall>tr'. client_Do gateway tr' (hook_request ''http://down.example/hook'') \<noteq> None) \<and>
   (\<exists>e new.
      SubmitWebhook gateway Map.empty ''http://down.example/hook'' [] =
        (Some (WebhookError (''Failed after 5 attempts: '' @ e)), [] @ new) \<and>
      length (attempts_of new) = 5 \<and>
      map unat (sleeps_of new) =
        [1000000000, 2000000000, 4000000000, 8000000000, 16000000000] \<and>
      last new = Sleep (16 * Second))"
proof -
  have down: "\<forall>tr'. client_Do gateway tr' (hook_request ''http://down.example/hook'') \<noteq> None"
    by (simp add: gateway_def hook_request_def)
  show ?thesis
    by (intro conjI)
      (rule prepared_gateway, rule down,
       rule SubmitWebhook_sleeps_after_last_attempt [OF prepared_gateway down, of "[]"])
qed

section \<open>Payload building\<close>

subsection \<open>The media blocks\<close>

lemma extract_into_other:
  "extract_into E key media b = Inr b' \<Longrightarrow> k \<noteq> key \<Longrightarrow> b' k = b k"
  by (auto simp: extract_into_def split: option.splits sum.splits)


lemma extract_into_fails:
  "(\<exists>e. extract_into E key media b = Inl e) \<longleftrightarrow>
     (\<exists>d\<in>set (opt_list media). isl (ExtractMedia E (PathMedia E) d))"
  by (auto simp: extract_into_def opt_list_def split: option.splits sum.splits)

lemma extract_into_fails_WebhookError:
  "extract_into E key media b = Inl e \<Longrightarrow> \<exists>msg. e = WebhookError msg"
  by (auto simp: extract_into_def split: option.splits sum.splits)

lemma pass_through_other: "k \<noteq> key \<Longrightarrow> pass_through key v b k = b k"
  by (simp add: pass_through_def split: option.splits)


lemma payload_media_Inr:
  assumes "payload_media E evt b = Inr b'"
  shows "\<exists>b1 b2 b3 b4.
      extract_into E ''audio'' (map_option DAudio (audioMsg (Message evt))) b = Inr b1 \<and>
      extract_into E ''document'' (map_option DDocument (documentMsg (Message evt))) b1 = Inr b2 \<and>
      extract_into E ''image'' (map_option DImage (imageMsg (Message evt))) b2 = Inr b3 \<and>
      extract_into E ''sticker'' (map_option DSticker (stickerMsg (Message evt)))
        (pass_through ''order'' (orderMsg (Message evt))
          (pass_through ''location'' (locationMsg (Message evt))
            (pass_through ''live_location'' (liveLocationMsg (Message evt))
              (pass_through ''list'' (listMsg (Message evt)) b3)))) = Inr b4 \<and>
      extract_into E ''video'' (map_option DVideo (videoMsg (Message evt))) b4 = Inr b'"
  using assms by (auto simp: payload_media_def Let_def split: sum.splits)


lemma extract_into_Inl:
  "extract_into E key media b = Inl e \<Longrightarrow>
     \<exists>d\<in>set (opt_list media). isl (ExtractMedia E (PathMedia E) d)"
  by (auto simp: extract_into_def opt_list_def split: option.splits sum.splits)

lemma extract_into_Inr:
  "extract_into E key media b = Inr b' \<Longrightarrow>
     \<forall>d\<in>set (opt_list media). \<not> isl (ExtractMedia E (PathMedia E) d)"
  by (auto simp: extract_into_def opt_list_def split: option.splits sum.splits)

lemma payload_media_Inl:
  assumes "payload_media E evt b = Inl e"
  shows "\<exists>d\<in>set (downloads (Message evt)). isl (ExtractMedia E (PathMedia E) d)"
  using assms
  by (auto simp: payload_media_def downloads_def Let_def split: sum.splits
           dest!: extract_into_Inl)

lemma payload_media_Inr_all:
  assumes "payload_media E evt b = Inr b'"
  shows "\<forall>d\<in>set (downloads (Message evt)). \<not> isl (ExtractMedia E (PathMedia E) d)"
proof -
  from payload_media_Inr [OF assms] obtain b1 b2 b3 b4 where
      "extract_into E ''audio'' (map_option DAudio (audioMsg (Message evt))) b = Inr b1"
      "extract_into E ''document'' (map_option DDocument (documentMsg (Message evt))) b1 = Inr b2"
      "extract_into E ''image'' (map_option DImage (imageMsg (Message evt))) b2 = Inr b3"
      "extract_into E ''sticker'' (map_option DSticker (stickerMsg (Message evt)))
        (pass_through ''order'' (orderMsg (Message evt))
          (pass_through ''location'' (locationMsg (Message evt))
            (pass_through ''live_location'' (liveLocationMsg (Message evt))
              (pass_through ''list'' (listMsg (Message evt)) b3)))) = Inr b4"
      "extract_into E ''video'' (map_option DVideo (videoMsg (Message evt))) b4 = Inr b'"
    by blast
  then show ?thesis
    unfolding downloads_def set_append ball_Un
    by (intro conjI) (erule extract_into_Inr)+
qed

lemma payload_media_fails:
  "(\<exists>e. payload_media E evt b = Inl e) \<longleftrightarrow>
     (\<exists>d\<in>set (downloads (Message evt)). isl (ExtractMedia E (PathMedia E) d))"
proof
  assume "\<exists>e. payload_media E evt b = Inl e"
  then show "\<exists>d\<in>set (downloads (Message evt)). isl (ExtractMedia E (PathMedia E) d)"
    using payload_media_Inl by blast
next
  assume bad: "\<exists>d\<in>set (downloads (Message evt)). isl (ExtractMedia E (PathMedia E) d)"
  show "\<exists>e. payload_media E evt b = Inl e"
  proof (cases "payload_media E evt b")
    case (Inl e)
    then show ?thesis by blast
  next
    case (Inr b')
    then show ?thesis using payload_media_Inr_all bad by blast
  qed
qed

lemma payload_media_WebhookError:
  "payload_media E evt b = Inl e \<Longrightarrow> \<exists>msg. e = WebhookError msg"
  by (cases e) simp

lemma payload_media_other:
  assumes "payload_media E evt b = Inr b'"
    and "k \<notin> set [''audio'', ''document'', ''image'', ''list'', ''live_location'',
                  ''location'', ''order'', ''sticker'', ''video'']"
  shows "b' k = b k"
proof -
  from payload_media_Inr [OF assms(1)] obtain b1 b2 b3 b4 where
      s1: "extract_into E ''audio'' (map_option DAudio (audioMsg (Message evt))) b = Inr b1"
    and s2: "extract_into E ''document'' (map_option DDocument (documentMsg (Message evt))) b1 = Inr b2"
    and s3: "extract_into E ''image'' (map_option DImage (imageMsg (Message evt))) b2 = Inr b3"
    and s4: "extract_into E ''sticker'' (map_option DSticker (stickerMsg (Message evt)))
        (pass_through ''order'' (orderMsg (Message evt))
          (pass_through ''location'' (locationMsg (Message evt))
            (pass_through ''live_location'' (liveLocationMsg (Message evt))
              (pass_through ''list'' (listMsg (Message evt)) b3)))) = Inr b4"
    and s5: "extract_into E ''video'' (map_option DVideo (videoMsg (Message evt))) b4 = Inr b'"
    by blast
  from assms(2) have k: "k \<noteq> ''audio''" "k \<noteq> ''document''" "k \<noteq> ''image''" "k \<noteq> ''list''"
      "k \<noteq> ''live_location''" "k \<noteq> ''location''" "k \<noteq> ''order''" "k \<noteq> ''sticker''"
      "k \<noteq> ''video''"
    by auto
  have "b' k = b4 k" by (rule extract_into_other [OF s5 k(9)])
  also have "\<dots> = b3 k"
    using extract_into_other [OF s4 k(8)] k by (simp add: pass_through_other)
  also have "\<dots> = b2 k" by (rule extract_into_other [OF s3 k(3)])
  also have "\<dots> = b1 k" by (rule extract_into_other [OF s2 k(2)])
  also have "\<dots> = b k" by (rule extract_into_other [OF s1 k(1)])
  finally show ?thesis .
qed


subsection \<open>The keys set before the media blocks\<close>

lemma payload_head_SenderNumber:
  "payload_head E evt ''SenderNumber'' =
     (if info_SourceString (Info evt) \<noteq> ''''
      then Some (JString (info_SourceString (Info evt))) else None)"
  by (simp add: payload_head_def Let_def)

lemma payload_head_message:
  "payload_head E evt ''message'' =
     Some (JObject (messageData (buildEventMessage E evt) (Message evt)))"
  by (simp add: payload_head_def Let_def)

lemma payload_head_absent:
  "k \<notin> set [''SenderNumber'', ''message'', ''PushName'', ''reaction'', ''view_once'',
              ''forwarded'', ''timestamp''] \<Longrightarrow> payload_head E evt k = None"
  by (simp add: payload_head_def Let_def)

lemma payload_kind_other:
  "k \<notin> set [''IsGroup'', ''GroupName'', ''MyNumber'', ''Type'', ''Port'', ''contact''] \<Longrightarrow>
     payload_kind E evt jid b k = b k"
  by (simp add: payload_kind_def Let_def split: sum.splits option.splits)


lemma payload_kind_Type:
  "payload_kind E evt jid b ''Type'' =
     Some (JString (if multi_contact E evt then ''contact_message''
                    else determineMessageType E evt (msg_Text (buildEventMessage E evt))))"
  by (simp add: payload_kind_def Let_def split: sum.splits option.splits)

lemma payload_kind_GroupName:
  "isl (GetGroupName E jid) \<Longrightarrow> payload_kind E evt jid b ''GroupName'' = b ''GroupName''"
  by (auto simp: payload_kind_def Let_def split: sum.splits option.splits)


lemma createPayload_Inr:
  assumes "createPayload E evt = Inr body"
  shows "\<exists>jid. types_ParseJID E (info_ChatString (Info evt)) = Inr jid \<and>
           payload_media E evt (payload_kind E evt jid (payload_head E evt)) = Inr body"
  using assms by (auto simp: createPayload_def split: sum.splits)

subsection \<open>When a payload is built\<close>

lemma createPayload_Inl_iff:
  "(\<exists>msg. createPayload E evt = Inl (WebhookError msg)) \<longleftrightarrow>
     (isl (types_ParseJID E (info_ChatString (Info evt))) \<or>
      (\<exists>d\<in>set (downloads (Message evt)). isl (ExtractMedia E (PathMedia E) d)))"
proof (cases "types_ParseJID E (info_ChatString (Info evt))")
  case (Inl err)
  then show ?thesis by (simp add: createPayload_def)
next
  case (Inr jid)
  let ?b = "payload_kind E evt jid (payload_head E evt)"
  have "(\<exists>msg. payload_media E evt ?b = Inl (WebhookError msg)) \<longleftrightarrow>
      (\<exists>e. payload_media E evt ?b = Inl e)"
    using payload_media_WebhookError by blast
  then show ?thesis
    using Inr by (simp add: createPayload_def payload_media_fails)
qed

lemma isl_createPayload:
  "isl (createPayload E evt) \<longleftrightarrow> (\<exists>msg. createPayload E evt = Inl (WebhookError msg))"
proof (cases "createPayload E evt")
  case (Inl e)
  then show ?thesis by (cases e) simp
next
  case (Inr body)
  then show ?thesis by simp
qed

lemma not_isl_createPayload:
  "\<not> isl (createPayload E evt) \<Longrightarrow> createPayload E evt = Inr (projr (createPayload E evt))"
  by (cases "createPayload E evt") simp_all

lemma createPayload_GroupName:
  assumes "types_ParseJID E (info_ChatString (Info evt)) = Inr jid"
    and "isl (GetGroupName E jid)"
    and "createPayload E evt = Inr body"
  shows "body ''GroupName'' = None"
proof -
  from assms(1,3) have "payload_media E evt (payload_kind E evt jid (payload_head E evt)) = Inr body"
    by (simp add: createPayload_def)
  then have "body ''GroupName'' = payload_kind E evt jid (payload_head E evt) ''GroupName''"
    by (rule payload_media_other) simp
  also have "\<dots> = payload_head E evt ''GroupName''"
    by (rule payload_kind_GroupName [OF assms(2)])
  also have "\<dots> = None"
    by (rule payload_head_absent) simp
  finally show ?thesis .
qed

text \<open>
  Claim C5. Building the payload fails, with a \<^verbatim>\<open>WebhookError\<close> and no payload,
  exactly when the chat identity does not parse or the extraction of one of the
  populated audio, document, image, sticker or video variants fails. A failed group-name
  lookup leaves \<^verbatim>\<open>GroupName\<close> out of the payload, and whether the payload is built
  does not depend on the lookup at all.
\<close>

theorem createPayload_fails_exactly_when:
  "((\<exists>msg. createPayload E evt = Inl (WebhookError msg)) \<longleftrightarrow>
      (isl (types_ParseJID E (info_ChatString (Info evt))) \<or>
       (\<exists>d\<in>set (downloads (Message evt)). isl (ExtractMedia E (PathMedia E) d)))) \<and>
   (\<forall>jid body.
      types_ParseJID E (info_ChatString (Info evt)) = Inr jid \<and>
      isl (GetGroupName E jid) \<and> createPayload E evt = Inr body \<longrightarrow>
      body ''GroupName'' = None) \<and>
   (\<forall>lookup. isl (createPayload (E\<lparr>GetGroupName := lookup\<rparr>) evt) = isl (createPayload E evt))"
proof (intro conjI allI impI)
  show "(\<exists>msg. createPayload E evt = Inl (WebhookError msg)) \<longleftrightarrow>
      (isl (types_ParseJID E (info_ChatString (Info evt))) \<or>
       (\<exists>d\<in>set (downloads (Message evt)). isl (ExtractMedia E (PathMedia E) d)))"
    by (rule createPayload_Inl_iff)
next
  fix jid body
  assume "types_ParseJID E (info_ChatString (Info evt)) = Inr jid \<and>
      isl (GetGroupName E jid) \<and> createPayload E evt = Inr body"
  then show "body ''GroupName'' = None"
    using createPayload_GroupName by blast
next
  fix lookup
  show "isl (createPayload (E\<lparr>GetGroupName := lookup\<rparr>) evt) = isl (createPayload E evt)"
    by (simp add: isl_createPayload createPayload_Inl_iff)
qed

lemma gateway_fields:
  "types_ParseJID gateway s = (if s = ''bad'' then Inl ''unexpected number of @s'' else Inr s)"
  "GetGroupName gateway j = (if j = ''nogroup@g.us'' then Inl ''not found'' else Inr ''Family'')"
  "ExtractMedia gateway dir d = (if d = DImage ''gone'' then Inl ''404'' else Inr (dir @ ''/file''))"
  "format_Message gateway = dump"
  by (simp_all add: gateway_def)

lemma event_fields:
  "info_ChatString (Info bad_chat_event) = ''bad''"
  "info_ChatString (Info group_image_event) = ''nogroup@g.us''"
  "info_ChatString (Info gone_image_event) = ''nogroup@g.us''"
  "info_ChatString (Info captioned_image_event) = ''5511888@g.us.example''"
  "info_ChatString (Info link_event) = ''5511888@s.whatsapp.net''"
  "info_ChatString (Info preview_event) = ''5511888@s.whatsapp.net''"
  "info_ChatString (Info anonymous_event) = ''''"
  "downloads (Message group_image_event) = [DImage ''holiday'']"
  "downloads (Message gone_image_event) = [DImage ''gone'']"
  "downloads (Message captioned_image_event) = [DImage ''contactsArrayMessage'']"
  "downloads (Message link_event) = []"
  "downloads (Message preview_event) = []"
  "downloads (Message anonymous_event) = []"
  by (simp_all add: bad_chat_event_def group_image_event_def gone_image_event_def
        captioned_image_event_def link_event_def preview_event_def anonymous_event_def
        text_info_def no_message_def downloads_def opt_list_def)

lemma built:
  "\<not> isl (createPayload gateway group_image_event)"
  "\<not> isl (createPayload gateway captioned_image_event)"
  "\<not> isl (createPayload gateway link_event)"
  "\<not> isl (createPayload gateway preview_event)"
  "\<not> isl (createPayload gateway anonymous_event)"
  by (simp_all add: isl_createPayload createPayload_Inl_iff gateway_fields event_fields)

theorem createPayload_fails_exactly_when_witness:
  "isl (types_ParseJID gateway (info_ChatString (Info bad_chat_event))) \<and>
   isl (createPayload gateway bad_chat_event) \<and>
   DImage ''gone'' \<in> set (downloads (Message gone_image_event)) \<and>
   isl (ExtractMedia gateway (PathMedia gateway) (DImage ''gone'')) \<and>
   isl (createPayload gateway gone_image_event) \<and>
   types_ParseJID gateway (info_ChatString (Info group_image_event)) = Inr ''nogroup@g.us'' \<and>
   isl (GetGroupName gateway ''nogroup@g.us'') \<and>
   createPayload gateway group_image_event = Inr (projr (createPayload gateway group_image_event)) \<and>
   projr (createPayload gateway group_image_event) ''GroupName'' = None"
proof -
  have bad: "isl (types_ParseJID gateway (info_ChatString (Info bad_chat_event)))"
    by (simp add: gateway_fields event_fields)
  have gone: "DImage ''gone'' \<in> set (downloads (Message gone_image_event))"
    "isl (ExtractMedia gateway (PathMedia gateway) (DImage ''gone''))"
    by (simp_all add: gateway_fields event_fields)
  have group: "types_ParseJID gateway (info_ChatString (Info group_image_event)) = Inr ''nogroup@g.us''"
    "isl (GetGroupName gateway ''nogroup@g.us'')"
    by (simp_all add: gateway_fields event_fields)
  have ok: "createPayload gateway group_image_event =
      Inr (projr (createPayload gateway group_image_event))"
    by (rule not_isl_createPayload) (rule built)
  have "\<exists>msg. createPayload gateway bad_chat_event = Inl (WebhookError msg)"
    using createPayload_fails_exactly_when [of gateway bad_chat_event] bad by blast
  then have 1: "isl (createPayload gateway bad_chat_event)" by auto
  have "\<exists>msg. createPayload gateway gone_image_event = Inl (WebhookError msg)"
    using createPayload_fails_exactly_when [of gateway gone_image_event] gone by blast
  then have 2: "isl (createPayload gateway gone_image_event)" by auto
  have 3: "projr (createPayload gateway group_image_event) ''GroupName'' = None"
    using createPayload_fails_exactly_when [of gateway group_image_event] group ok by blast
  show ?thesis
    by (intro conjI) (rule bad, rule 1, rule gone(1), rule gone(2), rule 2, rule group(1),
      rule group(2), rule ok, rule 3)
qed

subsection \<open>The multi-contact override\<close>

lemma createPayload_Type:
  assumes "createPayload E evt = Inr body"
  shows "body ''Type'' =
     Some (JString (if multi_contact E evt then ''contact_message''
                    else determineMessageType E evt (msg_Text (buildEventMessage E evt))))"
proof -
  from createPayload_Inr [OF assms] obtain jid where
    run: "payload_media E evt (payload_kind E evt jid (payload_head E evt)) = Inr body"
    by blast
  have "body ''Type'' = payload_kind E evt jid (payload_head E evt) ''Type''"
    by (rule payload_media_other [OF run]) simp
  then show ?thesis by (simp add: payload_kind_Type)
qed

lemma captioned_dump:
  "Contains (format_Message gateway (Message captioned_image_event)) ''contactsArrayMessage''"
  by (simp add: gateway_fields captioned_image_event_def no_message_def dump_def dump_opt_def)

text \<open>
  Claim C4 as stated fails of the classification: \<^verbatim>\<open>determineMessageType\<close> checks
  the image before the multi-contact marker (lines 227-229 before 242-244), so a picture
  in a \<^verbatim>\<open>media\<close> envelope whose dump contains \<^verbatim>\<open>contactsArrayMessage\<close> is
  classified \<^verbatim>\<open>image_message\<close>.
\<close>

theorem classification_counterexample:
  "info_Type (Info captioned_image_event) = ''media'' \<and>
   Contains (format_Message gateway (Message captioned_image_event)) ''contactsArrayMessage'' \<and>
   determineMessageType gateway captioned_image_event
     (msg_Text (buildEventMessage gateway captioned_image_event)) = ''image_message'' \<and>
   determineMessageType gateway captioned_image_event
     (msg_Text (buildEventMessage gateway captioned_image_event)) \<noteq> ''contact_message''"
proof -
  have media: "info_Type (Info captioned_image_event) = ''media''"
    by (simp add: captioned_image_event_def)
  have kind: "determineMessageType gateway captioned_image_event
      (msg_Text (buildEventMessage gateway captioned_image_event)) = ''image_message''"
    by (simp add: determineMessageType_def captioned_image_event_def no_message_def)
  have other: "determineMessageType gateway captioned_image_event
      (msg_Text (buildEventMessage gateway captioned_image_event)) \<noteq> ''contact_message''"
    unfolding kind by simp
  show ?thesis
    by (intro conjI) (rule media, rule captioned_dump, rule kind, rule other)
qed

text \<open>
  Claim C4, amended. For an event whose envelope type is \<^verbatim>\<open>media\<close> and whose dump
  contains \<^verbatim>\<open>contactsArrayMessage\<close>, \<^verbatim>\<open>determineMessageType\<close> yields the kind
  of the audio, image, video, document or sticker variant when one of these is populated
  (in this order), and \<^verbatim>\<open>contact_message\<close> in every other case, whatever the
  remaining variants and the text are. The override of the media rules is done by the
  payload builder (lines 137-156): every payload that is built for such an event has the
  type \<^verbatim>\<open>contact_message\<close>.
\<close>

theorem multi_contact_classification:
  assumes "info_Type (Info evt) = ''media''"
    and "Contains (format_Message E (Message evt)) ''contactsArrayMessage''"
  shows "determineMessageType E evt t =
           (if audioMsg (Message evt) \<noteq> None then
              (if audio_PTT (the (audioMsg (Message evt)))
               then ''voice_message'' else ''audio_message'')
            else if imageMsg (Message evt) \<noteq> None then ''image_message''
            else if videoMsg (Message evt) \<noteq> None then ''video_message''
            else if documentMsg (Message evt) \<noteq> None then ''document_message''
            else if stickerMsg (Message evt) \<noteq> None then ''sticker_message''
            else ''contact_message'') \<and>
         (\<forall>body. createPayload E evt = Inr body \<longrightarrow>
            body ''Type'' = Some (JString ''contact_message''))"
proof (intro conjI allI impI)
  have multi: "multi_contact E evt"
    using assms by (simp add: multi_contact_def)
  show "determineMessageType E evt t =
      (if audioMsg (Message evt) \<noteq> None then
         (if audio_PTT (the (audioMsg (Message evt)))
          then ''voice_message'' else ''audio_message'')
       else if imageMsg (Message evt) \<noteq> None then ''image_message''
       else if videoMsg (Message evt) \<noteq> None then ''video_message''
       else if documentMsg (Message evt) \<noteq> None then ''document_message''
       else if stickerMsg (Message evt) \<noteq> None then ''sticker_message''
       else ''contact_message'')"
    using multi by (simp add: determineMessageType_def Let_def del: not_None_eq)
  fix body
  assume "createPayload E evt = Inr body"
  then show "body ''Type'' = Some (JString ''contact_message'')"
    using createPayload_Type [of E evt body] multi by simp
qed

theorem multi_contact_classification_witness:
  "info_Type (Info captioned_image_event) = ''media'' \<and>
   Contains (format_Message gateway (Message captioned_image_event)) ''contactsArrayMessage'' \<and>
   determineMessageType gateway captioned_image_event '''' = ''image_message'' \<and>
   createPayload gateway captioned_image_event =
     Inr (projr (createPayload gateway captioned_image_event)) \<and>
   projr (createPayload gateway captioned_image_event) ''Type'' = Some (JString ''contact_message'') \<and>
   info_Type (Info media_text_event) = ''media'' \<and>
   Contains (format_Message gateway (Message media_text_event)) ''contactsArrayMessage'' \<and>
   determineMessageType gateway media_text_event ''https://example.com'' = ''contact_message''"
proof -
  have media: "info_Type (Info captioned_image_event) = ''media''"
    by (simp add: captioned_image_event_def)
  have ok: "createPayload gateway captioned_image_event =
      Inr (projr (createPayload gateway captioned_image_event))"
    by (rule not_isl_createPayload) (rule built)
  note picture = multi_contact_classification [OF media captioned_dump]
  have kind: "determineMessageType gateway captioned_image_event '''' = ''image_message''"
    using picture [of "''''", THEN conjunct1]
    by (simp add: captioned_image_event_def no_message_def)
  have overridden: "projr (createPayload gateway captioned_image_event) ''Type'' =
      Some (JString ''contact_message'')"
    using picture [of "''''", THEN conjunct2] ok by blast
  have media': "info_Type (Info media_text_event) = ''media''"
    by (simp add: media_text_event_def text_info_def)
  have dump': "Contains (format_Message gateway (Message media_text_event))
      ''contactsArrayMessage''"
    by (simp add: gateway_fields media_text_event_def no_message_def dump_def dump_opt_def)
  have kind': "determineMessageType gateway media_text_event ''https://example.com'' =
      ''contact_message''"
    using multi_contact_classification [OF media' dump', of "''https://example.com''",
        THEN conjunct1]
    by (simp add: media_text_event_def no_message_def)
  show ?thesis
    by (intro conjI)
      (rule media, rule captioned_dump, rule kind, rule ok, rule overridden,
       rule media', rule dump', rule kind')
qed

subsection \<open>The keys that are always there\<close>

lemma messageData_fixed:
  "messageData message m ''ID'' = Some (JString (msg_ID message))"
  "messageData message m ''MessageOrigin'' = Some (JString (msg_QuotedMessage message))"
  "messageData message m ''RepliedId'' = Some (JString (msg_RepliedId message))"
  by (simp_all add: messageData_def Let_def split: option.splits)

lemma createPayload_head:
  assumes "createPayload E evt = Inr body"
    and "k = ''SenderNumber'' \<or> k = ''message''"
  shows "body k = payload_head E evt k"
proof -
  from createPayload_Inr [OF assms(1)] obtain jid where
    run: "payload_media E evt (payload_kind E evt jid (payload_head E evt)) = Inr body"
    by blast
  have "body k = payload_kind E evt jid (payload_head E evt) k"
    using assms(2) by (intro payload_media_other [OF run]) auto
  also have "\<dots> = payload_head E evt k"
    using assms(2) by (intro payload_kind_other) auto
  finally show ?thesis .
qed

lemma createPayload_message:
  assumes "createPayload E evt = Inr body"
  shows "message_of body = messageData (buildEventMessage E evt) (Message evt)"
  using createPayload_head [OF assms, of "''message''"]
  by (simp add: message_of_def payload_head_message)

text \<open>
  Claim C9 as stated fails: an event whose source string is empty yields a payload
  without \<^verbatim>\<open>SenderNumber\<close> (the guard of line 47).
\<close>

theorem SenderNumber_absent_counterexample:
  "createPayload gateway anonymous_event = Inr (projr (createPayload gateway anonymous_event)) \<and>
   projr (createPayload gateway anonymous_event) ''SenderNumber'' = None"
proof -
  have ok: "createPayload gateway anonymous_event =
      Inr (projr (createPayload gateway anonymous_event))"
    by (rule not_isl_createPayload) (rule built)
  have "projr (createPayload gateway anonymous_event) ''SenderNumber'' =
      payload_head gateway anonymous_event ''SenderNumber''"
    by (rule createPayload_head [OF ok]) simp
  then show ?thesis
    using ok by (simp add: payload_head_SenderNumber anonymous_event_def)
qed

text \<open>
  Claim C9, amended. Every payload that is built holds \<^verbatim>\<open>message.ID\<close>,
  \<^verbatim>\<open>message.MessageOrigin\<close> and \<^verbatim>\<open>message.RepliedId\<close>, taken from the result of
  \<^verbatim>\<open>buildEventMessage\<close>; it holds \<^verbatim>\<open>SenderNumber\<close>, the source string of the
  event, exactly when that string is not empty.
\<close>

theorem createPayload_always_populates:
  assumes "createPayload E evt = Inr body"
  shows "body ''SenderNumber'' =
           (if info_SourceString (Info evt) = '''' then None
            else Some (JString (info_SourceString (Info evt)))) \<and>
         body ''message'' = Some (JObject (message_of body)) \<and>
         message_of body ''ID'' = Some (JString (msg_ID (buildEventMessage E evt))) \<and>
         message_of body ''MessageOrigin'' =
           Some (JString (msg_QuotedMessage (buildEventMessage E evt))) \<and>
         message_of body ''RepliedId'' = Some (JString (msg_RepliedId (buildEventMessage E evt)))"
proof -
  have "body ''SenderNumber'' = payload_head E evt ''SenderNumber''"
    by (rule createPayload_head [OF assms]) simp
  moreover have "body ''message'' = payload_head E evt ''message''"
    by (rule createPayload_head [OF assms]) simp
  ultimately show ?thesis
    by (simp add: payload_head_SenderNumber payload_head_message message_of_def messageData_fixed)
qed

theorem createPayload_always_populates_witness:
  "createPayload gateway link_event = Inr (projr (createPayload gateway link_event)) \<and>
   projr (createPayload gateway link_event) ''SenderNumber'' =
     Some (JString ''5511888@s.whatsapp.net'') \<and>
   message_of (projr (createPayload gateway link_event)) ''ID'' = Some (JString ''3EB0'') \<and>
   message_of (projr (createPayload gateway link_event)) ''MessageOrigin'' = Some (JString '''') \<and>
   message_of (projr (createPayload gateway link_event)) ''RepliedId'' = Some (JString '''')"
proof -
  have ok: "createPayload gateway link_event = Inr (projr (createPayload gateway link_event))"
    by (rule not_isl_createPayload) (rule built)
  show ?thesis
    using createPayload_always_populates [OF ok] ok
    by (simp add: link_event_def text_info_def gateway_def)
qed

subsection \<open>Which keys a payload holds\<close>



subsection \<open>Classification of an event with at most one variant\<close>






subsection \<open>Links\<close>

lemma determineMessageType_text:
  assumes "text_event (Message evt)" and "\<not> multi_contact E evt"
  shows "determineMessageType E evt t =
           (if urlRegex_MatchString t then ''link_message'' else ''text_message'')"
  using assms by (auto simp: determineMessageType_def text_event_def Let_def)

lemma messageData_text:
  assumes "pollUpdateMsg m = None"
  shows "messageData message m ''TextMessage'' =
           Some (JString (case extendedText m of
                            None \<Rightarrow> msg_Text message
                          | Some ext \<Rightarrow> if urlRegex_MatchString (ext_Text ext)
                                        then ext_Text ext else msg_Text message))"
    and "messageData message m ''TitleLink'' =
           (case extendedText m of
              None \<Rightarrow> None
            | Some ext \<Rightarrow> if urlRegex_MatchString (ext_Text ext) \<and> ext_Title ext \<noteq> ''''
                          then Some (JString (ext_Title ext)) else None)"
    and "messageData message m ''LinkDescription'' =
           (case extendedText m of
              None \<Rightarrow> None
            | Some ext \<Rightarrow> if urlRegex_MatchString (ext_Text ext) \<and> ext_Description ext \<noteq> ''''
                          then Some (JString (ext_Description ext)) else None)"
  using assms by (simp_all add: messageData_def Let_def split: option.splits)

text \<open>
  What the code does with a text event to which no earlier rule applies, whatever
  \<^verbatim>\<open>buildEventMessage\<close> returns: the type follows \<^verbatim>\<open>message.Text\<close>, the keys
  of the message object follow the extended text.
\<close>

lemma text_event_payload:
  assumes "text_event (Message evt)"
    and "\<not> multi_contact E evt"
    and "createPayload E evt = Inr body"
  shows "body ''Type'' =
           Some (JString (if urlRegex_MatchString (msg_Text (buildEventMessage E evt))
                          then ''link_message'' else ''text_message''))"
    and "message_of body ''TextMessage'' =
           Some (JString (case extendedText (Message evt) of
                            None \<Rightarrow> msg_Text (buildEventMessage E evt)
                          | Some ext \<Rightarrow> if urlRegex_MatchString (ext_Text ext)
                                        then ext_Text ext
                                        else msg_Text (buildEventMessage E evt)))"
    and "message_of body ''TitleLink'' =
           (case extendedText (Message evt) of
              None \<Rightarrow> None
            | Some ext \<Rightarrow> if urlRegex_MatchString (ext_Text ext) \<and> ext_Title ext \<noteq> ''''
                          then Some (JString (ext_Title ext)) else None)"
    and "message_of body ''LinkDescription'' =
           (case extendedText (Message evt) of
              None \<Rightarrow> None
            | Some ext \<Rightarrow> if urlRegex_MatchString (ext_Text ext) \<and> ext_Description ext \<noteq> ''''
                          then Some (JString (ext_Description ext)) else None)"
proof -
  show "body ''Type'' =
      Some (JString (if urlRegex_MatchString (msg_Text (buildEventMessage E evt))
                     then ''link_message'' else ''text_message''))"
    using createPayload_Type [OF assms(3)] assms(2)
    by (simp add: determineMessageType_text [OF assms(1,2)])
  have poll: "pollUpdateMsg (Message evt) = None"
    using assms(1) by (simp add: text_event_def)
  note md = createPayload_message [OF assms(3)] messageData_text [OF poll]
  show "message_of body ''TextMessage'' =
      Some (JString (case extendedText (Message evt) of
                       None \<Rightarrow> msg_Text (buildEventMessage E evt)
                     | Some ext \<Rightarrow> if urlRegex_MatchString (ext_Text ext)
                                   then ext_Text ext
                                   else msg_Text (buildEventMessage E evt)))"
    by (simp add: md)
  show "message_of body ''TitleLink'' =
      (case extendedText (Message evt) of
         None \<Rightarrow> None
       | Some ext \<Rightarrow> if urlRegex_MatchString (ext_Text ext) \<and> ext_Title ext \<noteq> ''''
                     then Some (JString (ext_Title ext)) else None)"
    by (simp add: md)
  show "message_of body ''LinkDescription'' =
      (case extendedText (Message evt) of
         None \<Rightarrow> None
       | Some ext \<Rightarrow> if urlRegex_MatchString (ext_Text ext) \<and> ext_Description ext \<noteq> ''''
                     then Some (JString (ext_Description ext)) else None)"
    by (simp add: md)
qed

lemma with_resolved_text_fields:
  "msg_Text (buildEventMessage (with_resolved_text E) evt) = resolved_text (Message evt)"
  "multi_contact (with_resolved_text E) evt = multi_contact E evt"
  "types_ParseJID (with_resolved_text E) = types_ParseJID E"
  "ExtractMedia (with_resolved_text E) = ExtractMedia E"
  "PathMedia (with_resolved_text E) = PathMedia E"
  by (simp_all add: with_resolved_text_def multi_contact_def)

text \<open>
  Claim C8 as stated fails: a text message whose text matches the pattern, sent in a
  \<^verbatim>\<open>media\<close> envelope and holding the word \<^verbatim>\<open>contactsArrayMessage\<close>, gets
  the type \<^verbatim>\<open>contact_message\<close> (the override of lines 137-156), not
  \<^verbatim>\<open>link_message\<close>, while \<^verbatim>\<open>TextMessage\<close> is the text with the link.
\<close>

theorem link_message_counterexample:
  "populated (Message media_text_event) = 1 \<and>
   resolved_text (Message media_text_event) = ''contactsArrayMessage https://example.com'' \<and>
   urlRegex_MatchString (resolved_text (Message media_text_event)) \<and>
   createPayload (with_resolved_text gateway) media_text_event =
     Inr (projr (createPayload (with_resolved_text gateway) media_text_event)) \<and>
   projr (createPayload (with_resolved_text gateway) media_text_event) ''Type'' =
     Some (JString ''contact_message'') \<and>
   projr (createPayload (with_resolved_text gateway) media_text_event) ''Type'' \<noteq>
     Some (JString ''link_message'') \<and>
   message_of (projr (createPayload (with_resolved_text gateway) media_text_event))
     ''TextMessage'' = Some (JString ''contactsArrayMessage https://example.com'')"
proof -
  let ?G = "with_resolved_text gateway"
  have one: "populated (Message media_text_event) = 1"
    by (simp add: populated_def media_text_event_def no_message_def)
  have resolved: "resolved_text (Message media_text_event) =
      ''contactsArrayMessage https://example.com''"
    by (simp add: resolved_text_def media_text_event_def no_message_def)
  have url: "urlRegex_MatchString (resolved_text (Message media_text_event))"
    unfolding resolved by (simp add: url_here_def starts_nonspace_def is_space_def)
  have "\<not> isl (createPayload ?G media_text_event)"
    by (simp add: isl_createPayload createPayload_Inl_iff with_resolved_text_fields
          gateway_fields media_text_event_def text_info_def no_message_def downloads_def
          opt_list_def)
  then have ok: "createPayload ?G media_text_event =
      Inr (projr (createPayload ?G media_text_event))"
    by (rule not_isl_createPayload)
  have "multi_contact gateway media_text_event"
    by (simp add: multi_contact_def gateway_fields media_text_event_def no_message_def
          dump_def dump_opt_def)
  then have multi: "multi_contact ?G media_text_event"
    by (simp only: with_resolved_text_fields)
  have kind: "projr (createPayload ?G media_text_event) ''Type'' =
      Some (JString ''contact_message'')"
    using createPayload_Type [OF ok] multi by simp
  have other: "projr (createPayload ?G media_text_event) ''Type'' \<noteq>
      Some (JString ''link_message'')"
    unfolding kind by simp
  have poll: "pollUpdateMsg (Message media_text_event) = None"
      and ext: "extendedText (Message media_text_event) = None"
    by (simp_all add: media_text_event_def no_message_def)
  have msg: "message_of (projr (createPayload ?G media_text_event)) ''TextMessage'' =
      Some (JString ''contactsArrayMessage https://example.com'')"
    by (simp add: createPayload_message [OF ok] messageData_text [OF poll] ext
          with_resolved_text_fields resolved)
  show ?thesis
    by (intro conjI) (rule one, rule resolved, rule url, rule ok, rule kind, rule other, rule msg)
qed

text \<open>
  Claim C8, amended, with the resolved text modelled from the specification. Take a text
  event: plain or extended text is populated and no rule of the classification before
  the text rule applies (no other variant is populated and the envelope is not a
  \<^verbatim>\<open>media\<close> one with the multi-contact marker). If its resolved text matches
  \<^verbatim>\<open>https?://[^\s]+\<close>, the payload has the type \<^verbatim>\<open>link_message\<close>, its
  \<^verbatim>\<open>TextMessage\<close> is that text, and \<^verbatim>\<open>TitleLink\<close> and
  \<^verbatim>\<open>LinkDescription\<close> are the title and the description of the extended-text
  message where these are not empty. If it does not match, the type is
  \<^verbatim>\<open>text_message\<close>, \<^verbatim>\<open>TextMessage\<close> is again that text and neither link key
  is present: the type and the message keys never disagree.
\<close>

theorem link_message_payload:
  assumes "text_event (Message evt)"
    and "\<not> multi_contact E evt"
    and "createPayload (with_resolved_text E) evt = Inr body"
  shows "(urlRegex_MatchString (resolved_text (Message evt)) \<longrightarrow>
            body ''Type'' = Some (JString ''link_message'') \<and>
            message_of body ''TextMessage'' = Some (JString (resolved_text (Message evt))) \<and>
            message_of body ''TitleLink'' =
              (case extendedText (Message evt) of
                 None \<Rightarrow> None
               | Some ext \<Rightarrow> if ext_Title ext = '''' then None
                             else Some (JString (ext_Title ext))) \<and>
            message_of body ''LinkDescription'' =
              (case extendedText (Message evt) of
                 None \<Rightarrow> None
               | Some ext \<Rightarrow> if ext_Description ext = '''' then None
                             else Some (JString (ext_Description ext)))) \<and>
         (\<not> urlRegex_MatchString (resolved_text (Message evt)) \<longrightarrow>
            body ''Type'' = Some (JString ''text_message'') \<and>
            message_of body ''TextMessage'' = Some (JString (resolved_text (Message evt))) \<and>
            message_of body ''TitleLink'' = None \<and>
            message_of body ''LinkDescription'' = None)"
proof -
  have single: "\<not> multi_contact (with_resolved_text E) evt"
    using assms(2) by (simp add: with_resolved_text_fields)
  note payload = text_event_payload [OF assms(1) single assms(3)]
  show ?thesis
  proof (cases "extendedText (Message evt)")
    case None
    then show ?thesis
      using payload by (simp add: with_resolved_text_fields resolved_text_def)
  next
    case (Some ext)
    then show ?thesis
      using payload by (simp add: with_resolved_text_fields resolved_text_def)
  qed
qed

theorem link_message_payload_witness:
  "text_event (Message link_event) \<and>
   \<not> multi_contact gateway link_event \<and>
   resolved_text (Message link_event) = ''check https://example.com now'' \<and>
   urlRegex_MatchString (resolved_text (Message link_event)) \<and>
   createPayload (with_resolved_text gateway) link_event =
     Inr (projr (createPayload (with_resolved_text gateway) link_event)) \<and>
   projr (createPayload (with_resolved_text gateway) link_event) ''Type'' =
     Some (JString ''link_message'') \<and>
   message_of (projr (createPayload (with_resolved_text gateway) link_event)) ''TextMessage'' =
     Some (JString ''check https://example.com now'') \<and>
   text_event (Message preview_event) \<and>
   \<not> multi_contact gateway preview_event \<and>
   resolved_text (Message preview_event) = ''see http://a.b'' \<and>
   urlRegex_MatchString (resolved_text (Message preview_event)) \<and>
   createPayload (with_resolved_text gateway) preview_event =
     Inr (projr (createPayload (with_resolved_text gateway) preview_event)) \<and>
   projr (createPayload (with_resolved_text gateway) preview_event) ''Type'' =
     Some (JString ''link_message'') \<and>
   message_of (projr (createPayload (with_resolved_text gateway) preview_event)) ''TextMessage'' =
     Some (JString ''see http://a.b'') \<and>
   message_of (projr (createPayload (with_resolved_text gateway) preview_event)) ''TitleLink'' =
     Some (JString ''A'') \<and>
   message_of (projr (createPayload (with_resolved_text gateway) preview_event))
     ''LinkDescription'' = Some (JString ''B'')"
proof -
  let ?G = "with_resolved_text gateway"
  have l1: "text_event (Message link_event)"
    by (simp add: text_event_def link_event_def no_message_def)
  have l2: "\<not> multi_contact gateway link_event"
    by (simp add: multi_contact_def link_event_def text_info_def)
  have l4: "resolved_text (Message link_event) = ''check https://example.com now''"
    by (simp add: resolved_text_def link_event_def no_message_def)
  have l5: "urlRegex_MatchString (resolved_text (Message link_event))"
    unfolding l4 by (simp add: url_here_def starts_nonspace_def is_space_def)
  have "\<not> isl (createPayload ?G link_event)"
    by (simp add: isl_createPayload createPayload_Inl_iff with_resolved_text_fields
          gateway_fields event_fields)
  then have l6: "createPayload ?G link_event = Inr (projr (createPayload ?G link_event))"
    by (rule not_isl_createPayload)
  note link = link_message_payload [OF l1 l2 l6, THEN conjunct1, THEN mp, OF l5]
  have p1: "text_event (Message preview_event)"
    by (simp add: text_event_def preview_event_def no_message_def)
  have p2: "\<not> multi_contact gateway preview_event"
    by (simp add: multi_contact_def preview_event_def text_info_def)
  have p4: "resolved_text (Message preview_event) = ''see http://a.b''"
    by (simp add: resolved_text_def preview_event_def no_message_def)
  have p5: "urlRegex_MatchString (resolved_text (Message preview_event))"
    unfolding p4 by (simp add: url_here_def starts_nonspace_def is_space_def)
  have "\<not> isl (createPayload ?G preview_event)"
    by (simp add: isl_createPayload createPayload_Inl_iff with_resolved_text_fields
          gateway_fields event_fields)
  then have p6: "createPayload ?G preview_event = Inr (projr (createPayload ?G preview_event))"
    by (rule not_isl_createPayload)
  note preview = link_message_payload [OF p1 p2 p6, THEN conjunct1, THEN mp, OF p5]
  have ext: "extendedText (Message preview_event) =
      Some \<lparr>ext_Text = ''see http://a.b'', ext_Title = ''A'', ext_Description = ''B''\<rparr>"
    by (simp add: preview_event_def no_message_def)
  have k1: "projr (createPayload ?G link_event) ''Type'' = Some (JString ''link_message'')"
    by (rule link [THEN conjunct1])
  have k2: "message_of (projr (createPayload ?G link_event)) ''TextMessage'' =
      Some (JString ''check https://example.com now'')"
    using link [THEN conjunct2, THEN conjunct1] unfolding l4 .
  have q1: "projr (createPayload ?G preview_event) ''Type'' = Some (JString ''link_message'')"
    by (rule preview [THEN conjunct1])
  have q2: "message_of (projr (createPayload ?G preview_event)) ''TextMessage'' =
      Some (JString ''see http://a.b'')"
    using preview [THEN conjunct2, THEN conjunct1] unfolding p4 .
  have q3: "message_of (projr (createPayload ?G preview_event)) ''TitleLink'' =
      Some (JString ''A'')"
    using preview [THEN conjunct2, THEN conjunct2, THEN conjunct1] by (simp add: ext)
  have q4: "message_of (projr (createPayload ?G preview_event)) ''LinkDescription'' =
      Some (JString ''B'')"
    using preview [THEN conjunct2, THEN conjunct2, THEN conjunct2] by (simp add: ext)
  show ?thesis
    by (intro conjI)
      (rule l1, rule l2, rule l4, rule l5, rule l6, rule k1, rule k2,
       rule p1, rule p2, rule p4, rule p5, rule p6, rule q1, rule q2, rule q3, rule q4)
qed

section \<open>Delivery to several subscribers\<close>

lemma forward_loop_first_failure:
  "SubmitWebhook E pl url tr = (Some err, tr') \<Longrightarrow>
     forward_loop E pl (url # urls) tr = (Some err, tr')"
  by simp

lemma prepared_gateway_any:
  "prepared gateway pl url = Some (hook_request url)"
  by (simp add: prepared_def gateway_def http_NewRequest_def header_Set_def hook_request_def)

lemma gateway_down:
  "\<exists>e. SubmitWebhook gateway pl ''http://down.example/hook'' tr =
     (Some (WebhookError (''Failed after 5 attempts: '' @ e)),
      tr @ backoff ''http://down.example/hook'' 5 Second)"
proof (rule SubmitWebhook_exhausted [OF prepared_gateway_any])
  show "\<forall>tr'. client_Do gateway tr' (hook_request ''http://down.example/hook'') \<noteq> None"
    by (simp add: gateway_def hook_request_def)
qed

lemma gateway_up:
  "SubmitWebhook gateway pl ''http://up.example/hook'' tr =
     (None, tr @ [HttpDo ''http://up.example/hook''])"
proof -
  have "client_Do gateway (tr @ backoff ''http://up.example/hook'' 0 Second)
      (hook_request ''http://up.example/hook'') = None"
    by (simp add: gateway_def hook_request_def)
  then have "submit_loop gateway (hook_request ''http://up.example/hook'') 0 Second None tr =
      (None, tr @ backoff (req_url (hook_request ''http://up.example/hook'')) 0 Second @
         [HttpDo (req_url (hook_request ''http://up.example/hook''))])"
    by (intro submit_loop_success) (simp_all add: maxAttempts_def hook_request_def)
  then show ?thesis
    by (simp add: prepared_SubmitWebhook [OF prepared_gateway_any] hook_request_def)
qed

text \<open>
  Claim C1 does not hold of \<^verbatim>\<open>forwardToWebhook\<close>: its loop returns at the first
  subscriber whose delivery fails. With the subscribers \<^verbatim>\<open>down\<close> and \<^verbatim>\<open>up\<close>
  configured in this order, the five attempts to the first are all that happens, and the
  second, which would have accepted the request, is never tried.
\<close>

theorem forwardToWebhook_stops_at_first_failure:
  "WhatsappWebhook gateway = [''http://down.example/hook'', ''http://up.example/hook''] \<and>
   client_Do gateway [] (hook_request ''http://up.example/hook'') = None \<and>
   fst (forwardToWebhook gateway link_event []) \<noteq> None \<and>
   attempts_of (snd (forwardToWebhook gateway link_event [])) =
     replicate 5 ''http://down.example/hook'' \<and>
   ''http://up.example/hook'' \<notin> set (attempts_of (snd (forwardToWebhook gateway link_event [])))"
proof -
  obtain pl where ok: "createPayload gateway link_event = Inr pl"
    using built(3) by (cases "createPayload gateway link_event") simp_all
  have urls: "WhatsappWebhook gateway = [''http://down.example/hook'', ''http://up.example/hook'']"
    by (simp add: gateway_def)
  have up: "client_Do gateway [] (hook_request ''http://up.example/hook'') = None"
    by (simp add: gateway_def hook_request_def)
  obtain e where down: "SubmitWebhook gateway pl ''http://down.example/hook'' [] =
      (Some (WebhookError (''Failed after 5 attempts: '' @ e)),
       [] @ backoff ''http://down.example/hook'' 5 Second)"
    using gateway_down by blast
  have "forward_loop gateway pl [''http://down.example/hook'', ''http://up.example/hook''] [] =
      (Some (WebhookError (''Failed after 5 attempts: '' @ e)),
       [] @ backoff ''http://down.example/hook'' 5 Second)"
    by (rule forward_loop_first_failure [OF down])
  then have run: "forwardToWebhook gateway link_event [] =
      (Some (WebhookError (''Failed after 5 attempts: '' @ e)),
       backoff ''http://down.example/hook'' 5 Second)"
    by (simp add: forwardToWebhook_def urls ok)
  show ?thesis
    by (simp add: run urls up attempts_of_backoff)
qed

text \<open>
  The loop of the \<^verbatim>\<open>/call-ended\<close> handler over the same subscribers goes on after
  the failure and reaches the second one.
\<close>

lemma call_webhook_job_reaches_every_subscriber:
  "attempts_of (call_webhook_job gateway pl (WhatsappWebhook gateway) []) =
     replicate 5 ''http://down.example/hook'' @ [''http://up.example/hook'']"
proof -
  have urls: "WhatsappWebhook gateway = [''http://down.example/hook'', ''http://up.example/hook'']"
    by (simp add: gateway_def)
  obtain e where down: "SubmitWebhook gateway pl ''http://down.example/hook'' [] =
      (Some (WebhookError (''Failed after 5 attempts: '' @ e)),
       [] @ backoff ''http://down.example/hook'' 5 Second)"
    using gateway_down by blast
  show ?thesis
    by (simp add: urls down gateway_up attempts_of_append attempts_of_backoff)
      (simp add: attempts_of_def)
qed

section \<open>The duplicate-suppression cache\<close>

lemma Guard_first: "m key = None \<Longrightarrow> Guard m key now = (True, m(key \<mapsto> now))"
  by (simp add: Guard_def LoadOrStore_def)

lemma Guard_again: "m key \<noteq> None \<Longrightarrow> Guard m key now = (False, m)"
  by (auto simp: Guard_def LoadOrStore_def)

lemma wake_absent: "m key = None \<Longrightarrow> wake now sl m key = None"
  by (induction sl arbitrary: m) (auto simp: Delete_def)

lemma wake_kept: "key \<notin> snd ` set sl \<Longrightarrow> wake now sl m key = m key"
  by (induction sl arbitrary: m) (auto simp: Delete_def)

lemma wake_not_due: "\<forall>(due, k)\<in>set sl. k = key \<longrightarrow> now < due \<Longrightarrow> wake now sl m key = m key"
  by (induction sl arbitrary: m) (auto simp: Delete_def)

text \<open>What the handler does with a request that reaches the guard as first observer.\<close>

lemma call_ended_first:
  assumes "reaches_guard E r"
    and "whatsapp_ParseJID E (Phone r) = Inr jid"
    and "callWebhookCache st (cacheKey_of r) = None"
  shows "call_ended E now (Some r) st =
     (case waCli_RejectCall E (rejectCalls st) jid (CallID r) of
        Some e \<Rightarrow>
          (Response 500 [(''error'', ''Failed to reject call: '' @ e)],
           st\<lparr>callWebhookCache := callWebhookCache st,
              sleepers := sleepers st @ [(now + cacheTTL, cacheKey_of r)],
              rejectCalls := rejectCalls st @ [(jid, CallID r)]\<rparr>)
      | None \<Rightarrow>
          (Response 200 [(''status'', ''call rejected''),
                         (''call_id'', CallID r), (''Phone'', Phone r)],
           st\<lparr>callWebhookCache := (callWebhookCache st)(cacheKey_of r \<mapsto> now),
              sleepers := sleepers st @ [(now + cacheTTL, cacheKey_of r)],
              rejectCalls := rejectCalls st @ [(jid, CallID r)],
              webhookJobs := webhookJobs st @
                (if WhatsappWebhook E \<noteq> [] then [call_payload E now r] else [])\<rparr>))"
proof -
  have del: "Delete ((callWebhookCache st)(cacheKey_of r \<mapsto> now)) (cacheKey_of r) =
      callWebhookCache st"
    using assms(3) by (auto simp: Delete_def)
  show ?thesis
    using assms del
    by (simp add: call_ended_def reaches_guard_def LoadOrStore_def Let_def
          cacheKey_of_def split: option.splits)
qed

lemma call_ended_duplicate:
  assumes "reaches_guard E r"
    and "callWebhookCache st (cacheKey_of r) \<noteq> None"
  shows "call_ended E now (Some r) st =
     (Response 200 [(''status'', ''call rejected (already processed)''),
                    (''call_id'', CallID r), (''Phone'', Phone r)], st)"
  using assms
  by (auto simp: call_ended_def reaches_guard_def LoadOrStore_def Let_def
        cacheKey_of_def split: sum.splits)

lemma run_sleepers_fields:
  "rejectCalls (run_sleepers now st) = rejectCalls st"
  "webhookJobs (run_sleepers now st) = webhookJobs st"
  "callWebhookCache (run_sleepers now st) = wake now (sleepers st) (callWebhookCache st)"
  "set (sleepers (run_sleepers now st)) \<subseteq> set (sleepers st)"
  by (auto simp: run_sleepers_def)

text \<open>
  Claim C6. When a request reaches the guard as first observer of its key and
  \<^verbatim>\<open>RejectCall\<close> then fails, the handler answers with the error, the cache is what
  it was before the request, and a guard on the same key at any later time, before the
  five minutes are over or after, finds the key absent and returns true.
\<close>

theorem failed_reject_evicts_key:
  assumes "reaches_guard E r"
    and "whatsapp_ParseJID E (Phone r) = Inr jid"
    and "callWebhookCache st (cacheKey_of r) = None"
    and "waCli_RejectCall E (rejectCalls st) jid (CallID r) = Some e"
  shows "fst (call_ended E now (Some r) st) =
           Response 500 [(''error'', ''Failed to reject call: '' @ e)] \<and>
         callWebhookCache (snd (call_ended E now (Some r) st)) = callWebhookCache st \<and>
         rejectCalls (snd (call_ended E now (Some r) st)) = rejectCalls st @ [(jid, CallID r)] \<and>
         fst (Guard (callWebhookCache (run_sleepers later (snd (call_ended E now (Some r) st))))
                (cacheKey_of r) later)"
proof -
  have run: "call_ended E now (Some r) st =
      (Response 500 [(''error'', ''Failed to reject call: '' @ e)],
       st\<lparr>callWebhookCache := callWebhookCache st,
          sleepers := sleepers st @ [(now + cacheTTL, cacheKey_of r)],
          rejectCalls := rejectCalls st @ [(jid, CallID r)]\<rparr>)"
    using call_ended_first [OF assms(1-3), of now] assms(4) by simp
  have "callWebhookCache (run_sleepers later (snd (call_ended E now (Some r) st)))
      (cacheKey_of r) = None"
    using assms(3) by (simp add: run run_sleepers_fields wake_absent)
  then show ?thesis
    by (simp add: run Guard_first)
qed

lemma abc_reaches_guard:
  "reaches_guard gateway abc_request" "reaches_guard gateway_ok abc_request"
  "whatsapp_ParseJID gateway (Phone abc_request) = Inr ''+1555@s.whatsapp.net''"
  "whatsapp_ParseJID gateway_ok (Phone abc_request) = Inr ''+1555@s.whatsapp.net''"
  "callWebhookCache fresh_server (cacheKey_of abc_request) = None"
  "cacheKey_of abc_request \<notin> snd ` set (sleepers fresh_server)"
  by (simp_all add: reaches_guard_def gateway_ok_def gateway_def abc_request_def
        fresh_server_def)

theorem failed_reject_evicts_key_witness:
  "reaches_guard gateway abc_request \<and>
   whatsapp_ParseJID gateway (Phone abc_request) = Inr ''+1555@s.whatsapp.net'' \<and>
   callWebhookCache fresh_server (cacheKey_of abc_request) = None \<and>
   waCli_RejectCall gateway (rejectCalls fresh_server) ''+1555@s.whatsapp.net''
     (CallID abc_request) = Some ''timeout'' \<and>
   fst (call_ended gateway 0 (Some abc_request) fresh_server) =
     Response 500 [(''error'', ''Failed to reject call: '' @ ''timeout'')] \<and>
   callWebhookCache (snd (call_ended gateway 0 (Some abc_request) fresh_server)) =
     callWebhookCache fresh_server \<and>
   fst (Guard (callWebhookCache
                 (run_sleepers 1000 (snd (call_ended gateway 0 (Some abc_request) fresh_server))))
          (cacheKey_of abc_request) 1000)"
proof -
  have fails: "waCli_RejectCall gateway (rejectCalls fresh_server) ''+1555@s.whatsapp.net''
      (CallID abc_request) = Some ''timeout''"
    by (simp add: gateway_def fresh_server_def)
  note evicted = failed_reject_evicts_key
    [OF abc_reaches_guard(1) abc_reaches_guard(3) abc_reaches_guard(5) fails, of 0 1000]
  show ?thesis
    by (intro conjI)
      (rule abc_reaches_guard(1), rule abc_reaches_guard(3), rule abc_reaches_guard(5),
       rule fails, rule evicted [THEN conjunct1],
       rule evicted [THEN conjunct2, THEN conjunct1],
       rule evicted [THEN conjunct2, THEN conjunct2, THEN conjunct2])
qed

text \<open>
  What the handler does with an event observed twice within five minutes when no
  eviction of its key is pending and \<^verbatim>\<open>RejectCall\<close> succeeds: one reject, then
  \<^verbatim>\<open>already processed\<close>. A guard on an absent key returns true, the next one false.
\<close>

lemma observed_twice_no_pending_eviction:
  assumes "m key = None"
    and "reaches_guard E r"
    and "whatsapp_ParseJID E (Phone r) = Inr jid"
    and "callWebhookCache st (cacheKey_of r) = None"
    and "cacheKey_of r \<notin> snd ` set (sleepers st)"
    and "waCli_RejectCall E (rejectCalls st) jid (CallID r) = None"
    and "t1 \<le> t2" and "t2 < t1 + cacheTTL"
  shows "fst (Guard m key t1) \<and> \<not> fst (Guard (snd (Guard m key t1)) key t2) \<and>
         fst (observe E t1 (Some r) st) =
           Response 200 [(''status'', ''call rejected''),
                         (''call_id'', CallID r), (''Phone'', Phone r)] \<and>
         fst (observe E t2 (Some r) (snd (observe E t1 (Some r) st))) =
           Response 200 [(''status'', ''call rejected (already processed)''),
                         (''call_id'', CallID r), (''Phone'', Phone r)] \<and>
         rejectCalls (snd (observe E t2 (Some r) (snd (observe E t1 (Some r) st)))) =
           rejectCalls st @ [(jid, CallID r)] \<and>
         length (webhookJobs (snd (observe E t2 (Some r) (snd (observe E t1 (Some r) st))))) \<le>
           length (webhookJobs st) + 1"
proof -
  let ?key = "cacheKey_of r"
  let ?s0 = "run_sleepers t1 st"
  have guard: "fst (Guard m key t1) \<and> \<not> fst (Guard (snd (Guard m key t1)) key t2)"
    using assms(1) by (simp add: Guard_first Guard_again)
  have absent: "callWebhookCache ?s0 ?key = None"
    using assms(4) by (simp add: run_sleepers_fields wake_absent)
  have reject: "waCli_RejectCall E (rejectCalls ?s0) jid (CallID r) = None"
    using assms(6) by (simp add: run_sleepers_fields)
  define s1 where "s1 = ?s0\<lparr>callWebhookCache := (callWebhookCache ?s0)(?key \<mapsto> t1),
      sleepers := sleepers ?s0 @ [(t1 + cacheTTL, ?key)],
      rejectCalls := rejectCalls ?s0 @ [(jid, CallID r)],
      webhookJobs := webhookJobs ?s0 @
        (if WhatsappWebhook E \<noteq> [] then [call_payload E t1 r] else [])\<rparr>"
  have first: "observe E t1 (Some r) st =
      (Response 200 [(''status'', ''call rejected''), (''call_id'', CallID r), (''Phone'', Phone r)],
       s1)"
    unfolding observe_def s1_def
    using call_ended_first [OF assms(2,3) absent, of t1] reject by simp
  have later: "\<forall>(due, k)\<in>set (sleepers s1). k = ?key \<longrightarrow> t2 < due"
  proof -
    have "set (sleepers s1) \<subseteq> set (sleepers st) \<union> {(t1 + cacheTTL, ?key)}"
      using run_sleepers_fields(4) [of t1 st] by (auto simp: s1_def)
    then show ?thesis
      using assms(5,8) by (auto simp: image_iff) force
  qed
  have present: "callWebhookCache (run_sleepers t2 s1) ?key \<noteq> None"
    using wake_not_due [OF later, of "callWebhookCache s1"]
    by (simp add: run_sleepers_fields) (simp add: s1_def)
  have second: "observe E t2 (Some r) s1 =
      (Response 200 [(''status'', ''call rejected (already processed)''),
                     (''call_id'', CallID r), (''Phone'', Phone r)],
       run_sleepers t2 s1)"
    unfolding observe_def by (rule call_ended_duplicate [OF assms(2) present])
  have calls: "rejectCalls (run_sleepers t2 s1) = rejectCalls st @ [(jid, CallID r)]"
    by (simp add: run_sleepers_fields) (simp add: s1_def run_sleepers_fields)
  have jobs: "length (webhookJobs (run_sleepers t2 s1)) \<le> length (webhookJobs st) + 1"
    by (simp add: run_sleepers_fields) (simp add: s1_def run_sleepers_fields)
  show ?thesis
    using guard calls jobs by (simp add: first second)
qed

lemma after_failed_attempt_fields:
  "fst (observe gateway 0 (Some abc_request) fresh_server) =
     Response 500 [(''error'', ''Failed to reject call: timeout'')]"
  "callWebhookCache after_failed_attempt = Map.empty"
  "sleepers after_failed_attempt = [(cacheTTL, ''ABC:+1555'')]"
  "rejectCalls after_failed_attempt = [(''+1555@s.whatsapp.net'', ''ABC'')]"
  by (simp_all add: after_failed_attempt_def observe_def run_sleepers_def call_ended_def
        LoadOrStore_def Delete_def gateway_def abc_request_def fresh_server_def Let_def)

lemma after_retry_fields:
  "fst (observe gateway 60000000000 (Some abc_request) after_failed_attempt) =
     Response 200 [(''status'', ''call rejected''), (''call_id'', ''ABC''), (''Phone'', ''+1555'')]"
  "callWebhookCache after_retry = [''ABC:+1555'' \<mapsto> 60000000000]"
  "sleepers after_retry = [(cacheTTL, ''ABC:+1555''), (60000000000 + cacheTTL, ''ABC:+1555'')]"
  "rejectCalls after_retry =
     [(''+1555@s.whatsapp.net'', ''ABC''), (''+1555@s.whatsapp.net'', ''ABC'')]"
  by (simp_all add: after_retry_def observe_def run_sleepers_def call_ended_def
        after_failed_attempt_fields LoadOrStore_def Delete_def gateway_def abc_request_def
        cacheTTL_def Let_def)

text \<open>
  Claim C2 does not hold of the handler. The goroutine that an attempt starts to evict
  its key (lines 282-285) is not cancelled when \<^verbatim>\<open>RejectCall\<close> fails and the key is
  deleted at once; it wakes five minutes after that attempt and deletes whatever is
  then stored under the key. Here the request is handled at time 0 and the reject fails;
  it is handled again a minute later, the reject succeeds and the key is stored; and it
  is observed a third time five and a half minutes after the first, that is four and a
  half minutes after the successful reject. The key is gone, the call is rejected once
  more, and the answer is \<^verbatim>\<open>call rejected\<close>, not
  \<^verbatim>\<open>call rejected (already processed)\<close>.
\<close>

theorem stale_eviction_rejects_again:
  "fst (observe gateway 0 (Some abc_request) fresh_server) =
     Response 500 [(''error'', ''Failed to reject call: timeout'')] \<and>
   fst (observe gateway 60000000000 (Some abc_request) after_failed_attempt) =
     Response 200 [(''status'', ''call rejected''), (''call_id'', ''ABC''), (''Phone'', ''+1555'')] \<and>
   callWebhookCache after_retry (cacheKey_of abc_request) = Some 60000000000 \<and>
   (60000000000::int) \<le> cacheTTL + 30000000000 \<and> cacheTTL + 30000000000 < 60000000000 + cacheTTL \<and>
   fst (observe gateway (cacheTTL + 30000000000) (Some abc_request) after_retry) =
     Response 200 [(''status'', ''call rejected''), (''call_id'', ''ABC''), (''Phone'', ''+1555'')] \<and>
   rejectCalls (snd (observe gateway (cacheTTL + 30000000000) (Some abc_request) after_retry)) =
     [(''+1555@s.whatsapp.net'', ''ABC''), (''+1555@s.whatsapp.net'', ''ABC''),
      (''+1555@s.whatsapp.net'', ''ABC'')]"
proof -
  have stored: "callWebhookCache after_retry (cacheKey_of abc_request) = Some 60000000000"
    by (simp add: after_retry_fields cacheKey_of_def abc_request_def)
  have window: "(60000000000::int) \<le> cacheTTL + 30000000000" "cacheTTL + 30000000000 < 60000000000 + cacheTTL"
    by (simp_all add: cacheTTL_def)
  have woken: "callWebhookCache (run_sleepers (cacheTTL + 30000000000) after_retry) = Map.empty"
    by (simp add: run_sleepers_def after_retry_fields Delete_def)
  have calls: "rejectCalls (run_sleepers (cacheTTL + 30000000000) after_retry) =
      [(''+1555@s.whatsapp.net'', ''ABC''), (''+1555@s.whatsapp.net'', ''ABC'')]"
    by (simp add: run_sleepers_def after_retry_fields)
  have answer: "fst (observe gateway (cacheTTL + 30000000000) (Some abc_request) after_retry) =
      Response 200 [(''status'', ''call rejected''), (''call_id'', ''ABC''), (''Phone'', ''+1555'')]"
    by (simp add: observe_def call_ended_def woken calls LoadOrStore_def gateway_def
          abc_request_def Let_def)
  have third: "rejectCalls (snd (observe gateway (cacheTTL + 30000000000) (Some abc_request) after_retry)) =
      [(''+1555@s.whatsapp.net'', ''ABC''), (''+1555@s.whatsapp.net'', ''ABC''),
       (''+1555@s.whatsapp.net'', ''ABC'')]"
    by (simp add: observe_def call_ended_def woken calls LoadOrStore_def gateway_def
          abc_request_def Let_def)
  show ?thesis
    by (intro conjI)
      (rule after_failed_attempt_fields(1), rule after_retry_fields(1), rule stored,
       rule window(1), rule window(2), rule answer, rule third)
qed

end
